theory Spec2Isabelle
  imports Complex_Main "HOL-Library.AList" "HOL-Library.Word"
    "HOL-Library.Char_ord" "HOL-Library.List_Lexorder"
begin

section \<open>Python values handled by the formatter\<close>

text \<open>
  The formatter of \<^verbatim>\<open>logstash/formatter.py\<close> dispatches on the runtime type of a
  value.  The datatype below has one constructor per type the code distinguishes
  (\<^verbatim>\<open>dict\<close>, \<^verbatim>\<open>list\<close>, \<^verbatim>\<open>datetime\<close>/\<^verbatim>\<open>date\<close>, \<^verbatim>\<open>Decimal\<close>, \<^verbatim>\<open>uuid.UUID\<close>, the
  "easy" types), plus tuples and a constructor for every other object.
  Exceptions are values of \<open>py_error\<close>; a computation that may raise returns
  \<open>py_error + 'a\<close> with \<open>Inl\<close> for the exception.
\<close>

datatype py_error =
    AttributeError string
  | TypeError
  | ValueError
  | OverflowError
  | RecursionError
  | OSError
  | LibraryError string

text \<open>A float is the exact rational it holds, or one of the three special values.\<close>

datatype pyfloat = Finite rat | PosInf | NegInf | NaN

text \<open>
  A \<^verbatim>\<open>decimal.Decimal\<close>: sign (True for negative), coefficient and exponent of a
  finite number, an infinity, a quiet NaN or a signalling NaN, the NaNs with their
  diagnostic payload (0 when there is none).
\<close>

datatype decimal =
    DecFinite bool nat int
  | DecInf bool
  | DecNaN bool nat
  | DecSNaN bool nat

text \<open>Fields of a \<^verbatim>\<open>datetime\<close>: year, month, day, hour, minute, second.\<close>

type_synonym timetuple = "int \<times> int \<times> int \<times> int \<times> int \<times> int"

datatype pyval =
    PDict "(pyval \<times> pyval) list"
  | PList "pyval list"
  | PTuple "pyval list"
  | PDateTime int int int int int int int
  | PDate int int int
  | PDecimal decimal
  | PUUID "128 word"
  | PStr string
  | PBool bool
  | PFloat pyfloat
  | PInt int
  | PNone
  | POther string

text \<open>
  A log record is its \<^verbatim>\<open>__dict__\<close>: attribute names with their values, in
  insertion order.  A mapping built by the formatter with string keys has the same
  shape.
\<close>

type_synonym log_record = "(string \<times> pyval) list"
type_synonym fields = "(string \<times> pyval) list"

text \<open>
  The formatter calls into the Python standard library: \<^verbatim>\<open>repr\<close>,
  \<^verbatim>\<open>time.mktime\<close> (which depends on the local time zone), the conversion of a
  decimal literal to the nearest double, \<^verbatim>\<open>str\<close> (through the \<^verbatim>\<open>%s\<close> format),
  the text of a float in JSON, \<^verbatim>\<open>traceback.format_exception\<close> and
  \<^verbatim>\<open>LogRecord.getMessage\<close>.  None of them is code of this repository; they are the
  fields of an environment that every operation takes as its first argument.  Two
  limits of the interpreter are part of it: the largest number of digits of an
  integer that may be turned into text (\<^verbatim>\<open>sys.get_int_max_str_digits()\<close>, 4300 by
  default, 0 for no limit), and the number of nested calls that are still allowed
  when \<^verbatim>\<open>json.dumps\<close> starts.  Three more fields belong to the timestamps: the
  product of two doubles as the hardware rounds it (\<open>fmul\<close>), the text that the
  platform's \<^verbatim>\<open>strftime\<close> writes for a year below 1000 (\<open>year_text\<close>: glibc writes
  987, other C libraries 0987), and the exception that \<^verbatim>\<open>utcfromtimestamp\<close> raises
  for a number of seconds outside the years 1 to 9999 (\<open>range_error\<close>: OverflowError,
  OSError or ValueError, depending on how far outside it is).
\<close>

record pylib =
  repr_of :: "pyval \<Rightarrow> py_error + string"
  mktime :: "timetuple \<Rightarrow> py_error + pyfloat"
  to_double :: "rat \<Rightarrow> pyfloat"
  str_of :: "pyval \<Rightarrow> py_error + string"
  float_repr :: "pyfloat \<Rightarrow> string"
  tb_format :: "pyval \<Rightarrow> py_error + string list"
  getMessage :: "log_record \<Rightarrow> py_error + string"
  int_max_str_digits :: nat
  recursion_budget :: nat
  fmul :: "rat \<Rightarrow> rat \<Rightarrow> rat"
  year_text :: "int \<Rightarrow> string"
  range_error :: "int \<Rightarrow> py_error"

text \<open>Python's truth value of an object (\<^verbatim>\<open>if x:\<close>, \<^verbatim>\<open>not x\<close>).\<close>

fun truthy :: "pyval \<Rightarrow> bool" where
  "truthy (PDict kvs) = (kvs \<noteq> [])"
| "truthy (PList xs) = (xs \<noteq> [])"
| "truthy (PTuple xs) = (xs \<noteq> [])"
| "truthy (PDecimal (DecFinite s c e)) = (c \<noteq> 0)"
| "truthy (PStr s) = (s \<noteq> [])"
| "truthy (PBool b) = b"
| "truthy (PFloat (Finite q)) = (q \<noteq> 0)"
| "truthy (PInt i) = (i \<noteq> 0)"
| "truthy PNone = False"
| "truthy _ = True"

section \<open>Sequencing computations that may raise\<close>

text \<open>\<open>bindE m f\<close> runs \<open>f\<close> on the result of \<open>m\<close>, or propagates its exception.\<close>

definition bindE :: "py_error + 'a \<Rightarrow> ('a \<Rightarrow> py_error + 'b) \<Rightarrow> py_error + 'b" where
  "bindE m f = (case m of Inl e \<Rightarrow> Inl e | Inr x \<Rightarrow> f x)"

section \<open>Attribute access\<close>

text \<open>\<^verbatim>\<open>record.name\<close>: raises AttributeError when the attribute is missing.\<close>

definition getattr :: "log_record \<Rightarrow> string \<Rightarrow> py_error + pyval" where
  "getattr r name =
     (case map_of r name of None \<Rightarrow> Inl (AttributeError name) | Some v \<Rightarrow> Inr v)"

text \<open>\<^verbatim>\<open>getattr(record, name, default)\<close>.\<close>

definition getattr_default :: "log_record \<Rightarrow> string \<Rightarrow> pyval \<Rightarrow> pyval" where
  "getattr_default r name d = (case map_of r name of None \<Rightarrow> d | Some v \<Rightarrow> v)"

section \<open>Exception formatting and debug fields\<close>

text \<open>
  \<^verbatim>\<open>format_exception\<close>: the lines of \<^verbatim>\<open>traceback.format_exception(*exc_info)\<close>
  joined, or the empty string when \<^verbatim>\<open>exc_info\<close> is falsy.
\<close>

definition format_exception :: "pylib \<Rightarrow> pyval \<Rightarrow> py_error + string" where
  "format_exception lib exc_info =
     (if truthy exc_info
      then bindE (tb_format lib exc_info) (\<lambda>ls. Inr (concat ls))
      else Inr [])"

text \<open>
  The two guarded additions of \<^verbatim>\<open>get_debug_fields\<close>:
  \<^verbatim>\<open>if not getattr(record, name, None): fields[name] = record.name\<close>.
\<close>

definition add_if_falsy :: "log_record \<Rightarrow> string \<Rightarrow> fields \<Rightarrow> py_error + fields" where
  "add_if_falsy r name fs =
     (if \<not> truthy (getattr_default r name PNone)
      then bindE (getattr r name) (\<lambda>v. Inr (AList.update name v fs))
      else Inr fs)"

definition get_debug_fields :: "pylib \<Rightarrow> log_record \<Rightarrow> py_error + fields" where
  "get_debug_fields lib r =
     bindE (getattr r ''exc_info'') (\<lambda>ei.
     bindE (format_exception lib ei) (\<lambda>st.
     bindE (getattr r ''lineno'') (\<lambda>lno.
     bindE (getattr r ''process'') (\<lambda>pr.
     bindE (getattr r ''threadName'') (\<lambda>tn.
     bindE (add_if_falsy r ''funcName''
              [(''stack_trace'', PStr st), (''lineno'', lno),
               (''process'', pr), (''thread_name'', tn)]) (\<lambda>fs.
     add_if_falsy r ''processName'' fs))))))"

section \<open>Timestamps\<close>

text \<open>
  \<^verbatim>\<open>format_timestamp\<close> is
  \<^verbatim>\<open>tstamp = datetime.utcfromtimestamp(timestamp)\<close> followed by
  \<^verbatim>\<open>tstamp.strftime("%Y-%m-%dT%H:%M:%S") + ".%03d" % (tstamp.microsecond / 1000) + "Z"\<close>.
  The two library calls are modelled as CPython 3 implements them.

  \<^verbatim>\<open>utcfromtimestamp\<close> splits a float into its integral part (towards zero) and its
  fraction, multiplies the fraction by \<open>10\<^sup>6\<close> in double precision, rounds the
  product to the nearest integer, ties to even, and carries into the seconds.  The
  float is the exact rational it holds.
\<close>

definition round_half_even :: "rat \<Rightarrow> int" where
  "round_half_even q =
     (let f = \<lfloor>q\<rfloor>; d = q - of_int f
      in if d < 1 / 2 then f
         else if 1 / 2 < d then f + 1
         else if even f then f else f + 1)"

definition split_seconds :: "pylib \<Rightarrow> rat \<Rightarrow> int \<times> int" where
  "split_seconds lib t =
     (let ip = (if 0 \<le> t then \<lfloor>t\<rfloor> else \<lceil>t\<rceil>);
          fp = round_half_even (fmul lib (t - of_int ip) 1000000)
      in if 1000000 \<le> fp then (ip + 1, fp - 1000000)
         else if fp < 0 then (ip - 1, fp + 1000000)
         else (ip, fp))"

text \<open>
  The argument of \<^verbatim>\<open>utcfromtimestamp\<close> as whole seconds and microseconds.  A NaN is
  a ValueError, an infinity an OverflowError, a value that is no number a TypeError.
\<close>

fun timestamp_parts :: "pylib \<Rightarrow> pyval \<Rightarrow> py_error + (int \<times> int)" where
  "timestamp_parts lib (PFloat (Finite q)) = Inr (split_seconds lib q)"
| "timestamp_parts lib (PFloat NaN) = Inl ValueError"
| "timestamp_parts lib (PFloat PosInf) = Inl OverflowError"
| "timestamp_parts lib (PFloat NegInf) = Inl OverflowError"
| "timestamp_parts lib (PInt i) = Inr (i, 0)"
| "timestamp_parts lib (PBool b) = Inr (if b then 1 else 0, 0)"
| "timestamp_parts lib _ = Inl TypeError"

text \<open>
  The proleptic Gregorian calendar, as \<^verbatim>\<open>datetime\<close> computes it from a day number
  (1 is 0001-01-01): the tables and the function \<^verbatim>\<open>_ord2ymd\<close> of the module.
\<close>

definition DAYS_IN_MONTH :: "int list" where
  "DAYS_IN_MONTH = [-1, 31, 28, 31, 30, 31, 30, 31, 31, 30, 31, 30, 31]"

definition DAYS_BEFORE_MONTH :: "int list" where
  "DAYS_BEFORE_MONTH = [-1, 0, 31, 59, 90, 120, 151, 181, 212, 243, 273, 304, 334]"

definition month_day :: "bool \<Rightarrow> int \<Rightarrow> int \<times> int" where
  "month_day leapyear n =
     (let month = (n + 50) div 32;
          preceding = DAYS_BEFORE_MONTH ! nat month
                      + (if 2 < month \<and> leapyear then 1 else 0)
      in if n < preceding
         then (month - 1,
               n - (preceding - (DAYS_IN_MONTH ! nat (month - 1)
                                 + (if month - 1 = 2 \<and> leapyear then 1 else 0))) + 1)
         else (month, n - preceding + 1))"

definition ord2ymd :: "int \<Rightarrow> int \<times> int \<times> int" where
  "ord2ymd ordinal =
     (let n = ordinal - 1;
          n400 = n div 146097; r400 = n mod 146097;
          n100 = r400 div 36524; r100 = r400 mod 36524;
          n4 = r100 div 1461; r4 = r100 mod 1461;
          n1 = r4 div 365; r1 = r4 mod 365;
          year = n400 * 400 + 1 + n100 * 100 + n4 * 4 + n1
      in if n1 = 4 \<or> n100 = 4 then (year - 1, 12, 31)
         else (let leapyear = (n1 = 3 \<and> (n4 \<noteq> 24 \<or> n100 = 3));
                   md = month_day leapyear r1
               in (year, fst md, snd md)))"

text \<open>Day numbers of 1970-01-01 and of 9999-12-31.\<close>

definition EPOCH_ORDINAL :: int where "EPOCH_ORDINAL = 719163"
definition MAX_ORDINAL :: int where "MAX_ORDINAL = 3652059"

text \<open>
  \<^verbatim>\<open>datetime.utcfromtimestamp\<close>: year, month, day, hour, minute, second and
  microsecond in UTC.  A moment outside the years 1 to 9999 is an error.
\<close>

definition utcfromtimestamp ::
  "pylib \<Rightarrow> pyval \<Rightarrow>
     py_error + (int \<times> int \<times> int \<times> int \<times> int \<times> int \<times> int)" where
  "utcfromtimestamp lib ts =
     bindE (timestamp_parts lib ts) (\<lambda>(secs, us).
       let days = secs div 86400; rem = secs mod 86400;
           ordinal = EPOCH_ORDINAL + days
       in if ordinal < 1 \<or> MAX_ORDINAL < ordinal then Inl (range_error lib secs)
          else (case ord2ymd ordinal of (y, m, d) \<Rightarrow>
                  Inr (y, m, d, rem div 3600, rem mod 3600 div 60, rem mod 60, us)))"

text \<open>Decimal digits, and the \<^verbatim>\<open>%0wd\<close> conversion of a number that is not negative.\<close>

definition digit_char :: "nat \<Rightarrow> char" where
  "digit_char n = ''0123456789'' ! n"

fun show_nat :: "nat \<Rightarrow> string" where
  "show_nat n = (if n < 10 then [digit_char n]
                 else show_nat (n div 10) @ [digit_char (n mod 10)])"

definition zero_pad :: "nat \<Rightarrow> int \<Rightarrow> string" where
  "zero_pad w n = (let s = show_nat (nat n) in replicate (w - length s) CHR ''0'' @ s)"

text \<open>
  \<^verbatim>\<open>strftime("%Y-%m-%dT%H:%M:%S")\<close>.  A year from 1000 on is written with its
  digits; a year below 1000 as the platform writes it.
\<close>

definition strftime_iso ::
  "pylib \<Rightarrow> int \<times> int \<times> int \<times> int \<times> int \<times> int \<times> int \<Rightarrow> string" where
  "strftime_iso lib dt =
     (case dt of (y, m, d, hh, mm, ss, us) \<Rightarrow>
        (if 1000 \<le> y then show_nat (nat y) else year_text lib y) @ ''-'' @
        zero_pad 2 m @ ''-'' @ zero_pad 2 d @ ''T'' @
        zero_pad 2 hh @ '':'' @ zero_pad 2 mm @ '':'' @ zero_pad 2 ss)"

definition microsecond :: "int \<times> int \<times> int \<times> int \<times> int \<times> int \<times> int \<Rightarrow> int" where
  "microsecond dt = (case dt of (y, m, d, hh, mm, ss, us) \<Rightarrow> us)"

definition format_timestamp :: "pylib \<Rightarrow> pyval \<Rightarrow> py_error + string" where
  "format_timestamp lib timestamp =
     bindE (utcfromtimestamp lib timestamp) (\<lambda>tstamp.
       Inr (strftime_iso lib tstamp @ ''.'' @ zero_pad 3 (microsecond tstamp div 1000)
            @ ''Z''))"

section \<open>The value normalizer\<close>

text \<open>
  \<^verbatim>\<open>float(str(value))\<close> for a \<^verbatim>\<open>Decimal\<close>.  The text of a finite decimal or of an
  infinity is a float literal; so is \<^verbatim>\<open>NaN\<close> with a sign.  The text of a NaN with a
  payload (\<^verbatim>\<open>NaN123\<close>) and of a signalling NaN (\<^verbatim>\<open>sNaN\<close>) is not, and
  \<^verbatim>\<open>float\<close> raises ValueError.
\<close>

fun float_of_decimal :: "pylib \<Rightarrow> decimal \<Rightarrow> py_error + pyfloat" where
  "float_of_decimal lib (DecFinite neg c e) =
     Inr (to_double lib ((if neg then - 1 else 1) * of_nat c * 10 powi e))"
| "float_of_decimal lib (DecInf neg) = Inr (if neg then NegInf else PosInf)"
| "float_of_decimal lib (DecNaN neg payload) =
     (if payload = 0 then Inr NaN else Inl ValueError)"
| "float_of_decimal lib (DecSNaN neg payload) = Inl ValueError"

text \<open>\<^verbatim>\<open>UUID.hex\<close>: the 128 bits as 32 lower-case hexadecimal digits.\<close>

definition hex_char :: "nat \<Rightarrow> char" where
  "hex_char n = ''0123456789abcdef'' ! n"

definition uuid_hex :: "128 word \<Rightarrow> string" where
  "uuid_hex u = map (\<lambda>i. hex_char (unat u div 16 ^ (31 - i) mod 16)) [0..<32]"

text \<open>
  \<^verbatim>\<open>value_repr\<close>, the local function of \<^verbatim>\<open>get_extra_fields\<close>, with its branches in
  the order of the source.  The comprehension over a dict keeps every key and
  normalizes every value; the one over a list normalizes every element.  The first
  element that raises ends the comprehension.
\<close>

fun value_repr :: "pylib \<Rightarrow> pyval \<Rightarrow> py_error + pyval"
  and value_repr_items :: "pylib \<Rightarrow> (pyval \<times> pyval) list \<Rightarrow> py_error + (pyval \<times> pyval) list"
  and value_repr_list :: "pylib \<Rightarrow> pyval list \<Rightarrow> py_error + pyval list"
where
  "value_repr lib (PDict kvs) = bindE (value_repr_items lib kvs) (\<lambda>kvs'. Inr (PDict kvs'))"
| "value_repr lib (PList xs) = bindE (value_repr_list lib xs) (\<lambda>ys. Inr (PList ys))"
| "value_repr lib (PDateTime y m d hh mm ss us) =
     bindE (mktime lib (y, m, d, hh, mm, ss)) (\<lambda>t.
     bindE (format_timestamp lib (PFloat t)) (\<lambda>s. Inr (PStr s)))"
| "value_repr lib (PDate y m d) =
     bindE (mktime lib (y, m, d, 0, 0, 0)) (\<lambda>t.
     bindE (format_timestamp lib (PFloat t)) (\<lambda>s. Inr (PStr s)))"
| "value_repr lib (PDecimal dec) = bindE (float_of_decimal lib dec) (\<lambda>f. Inr (PFloat f))"
| "value_repr lib (PUUID u) = Inr (PStr (uuid_hex u))"
| "value_repr lib (PStr s) = Inr (PStr s)"
| "value_repr lib (PBool b) = Inr (PBool b)"
| "value_repr lib (PFloat f) = Inr (PFloat f)"
| "value_repr lib (PInt i) = Inr (PInt i)"
| "value_repr lib PNone = Inr PNone"
| "value_repr lib (PTuple xs) = bindE (repr_of lib (PTuple xs)) (\<lambda>s. Inr (PStr s))"
| "value_repr lib (POther tag) = bindE (repr_of lib (POther tag)) (\<lambda>s. Inr (PStr s))"
| "value_repr_items lib [] = Inr []"
| "value_repr_items lib ((k, v) # kvs) =
     bindE (value_repr lib v) (\<lambda>v'.
     bindE (value_repr_items lib kvs) (\<lambda>kvs'. Inr ((k, v') # kvs')))"
| "value_repr_list lib [] = Inr []"
| "value_repr_list lib (x # xs) =
     bindE (value_repr lib x) (\<lambda>y.
     bindE (value_repr_list lib xs) (\<lambda>ys. Inr (y # ys)))"

section \<open>Extra fields\<close>

definition skip_list :: "string list" where
  "skip_list =
     [''args'', ''asctime'', ''created'', ''exc_info'', ''exc_text'', ''filename'',
      ''funcName'', ''id'', ''levelname'', ''levelno'', ''lineno'', ''module'',
      ''msecs'', ''msecs'', ''message'', ''msg'', ''name'', ''pathname'', ''process'',
      ''processName'', ''relativeCreated'', ''thread'', ''threadName'', ''extra'']"

text \<open>
  The loop of \<^verbatim>\<open>get_extra_fields\<close> over \<^verbatim>\<open>record.__dict__.items()\<close>, with the
  mapping \<^verbatim>\<open>fields\<close> built so far as its state.
\<close>

fun extra_loop :: "pylib \<Rightarrow> log_record \<Rightarrow> fields \<Rightarrow> py_error + fields" where
  "extra_loop lib [] fs = Inr fs"
| "extra_loop lib ((key, v) # kvs) fs =
     (if key \<notin> set skip_list
      then bindE (value_repr lib v) (\<lambda>v'. extra_loop lib kvs (AList.update key v' fs))
      else extra_loop lib kvs fs)"

definition get_extra_fields :: "pylib \<Rightarrow> log_record \<Rightarrow> py_error + fields" where
  "get_extra_fields lib r = extra_loop lib r []"

section \<open>The two document builders\<close>

record formatter_config =
  message_type :: pyval
  tags :: pyval
  host :: string

text \<open>\<^verbatim>\<open>d.update(other)\<close>: the entries of \<open>other\<close> written into \<open>d\<close> in order.\<close>

definition dict_update :: "fields \<Rightarrow> fields \<Rightarrow> fields" where
  "dict_update d other = fold (\<lambda>(k, v). AList.update k v) other d"

text \<open>A mapping with string keys as a value.\<close>

definition as_dict :: "fields \<Rightarrow> pyval" where
  "as_dict fs = PDict (map (\<lambda>(k, v). (PStr k, v)) fs)"

text \<open>\<^verbatim>\<open>format_source\<close>: \<^verbatim>\<open>"%s://%s/%s" % (message_type, host, path)\<close>.\<close>

definition format_source :: "pylib \<Rightarrow> pyval \<Rightarrow> string \<Rightarrow> pyval \<Rightarrow> py_error + string" where
  "format_source lib mt h path =
     bindE (str_of lib mt) (\<lambda>a.
     bindE (str_of lib path) (\<lambda>c. Inr (a @ ''://'' @ h @ ''/'' @ c)))"

text \<open>
  The part of both \<^verbatim>\<open>format\<close> methods after the first dict display: the extra
  fields are merged in, then the debug fields if \<^verbatim>\<open>record.exc_info\<close> is truthy.
\<close>

definition add_extra_and_debug :: "pylib \<Rightarrow> log_record \<Rightarrow> fields \<Rightarrow> py_error + fields" where
  "add_extra_and_debug lib r d =
     bindE (get_extra_fields lib r) (\<lambda>ex.
     bindE (getattr r ''exc_info'') (\<lambda>ei.
       if truthy ei
       then bindE (get_debug_fields lib r) (\<lambda>dbg. Inr (dict_update (dict_update d ex) dbg))
       else Inr (dict_update d ex)))"

text \<open>The \<^verbatim>\<open>@fields\<close> mapping of version 0 and the whole message of version 0.\<close>

definition fields_v0 :: "pylib \<Rightarrow> log_record \<Rightarrow> py_error + fields" where
  "fields_v0 lib r =
     bindE (getattr r ''levelname'') (\<lambda>lv.
     bindE (getattr r ''name'') (\<lambda>nm.
     add_extra_and_debug lib r [(''levelname'', lv), (''logger'', nm)]))"

definition message_v0 :: "pylib \<Rightarrow> formatter_config \<Rightarrow> log_record \<Rightarrow> py_error + fields" where
  "message_v0 lib cfg r =
     bindE (getattr r ''created'') (\<lambda>cr.
     bindE (format_timestamp lib cr) (\<lambda>ts.
     bindE (getMessage lib r) (\<lambda>msg.
     bindE (getattr r ''pathname'') (\<lambda>path.
     bindE (format_source lib (message_type cfg) (host cfg) path) (\<lambda>src.
     bindE (getattr r ''pathname'') (\<lambda>path'.
     bindE (fields_v0 lib r) (\<lambda>fs.
       Inr [(''@timestamp'', PStr ts), (''@message'', PStr msg), (''@source'', PStr src),
            (''@source_host'', PStr (host cfg)), (''@source_path'', path'),
            (''@tags'', tags cfg), (''@type'', message_type cfg),
            (''@fields'', as_dict fs)])))))))"

text \<open>The first dict display of version 1, and the whole message of version 1.\<close>

definition base_v1 :: "pylib \<Rightarrow> formatter_config \<Rightarrow> log_record \<Rightarrow> py_error + fields" where
  "base_v1 lib cfg r =
     bindE (getattr r ''created'') (\<lambda>cr.
     bindE (format_timestamp lib cr) (\<lambda>ts.
     bindE (getMessage lib r) (\<lambda>msg.
     bindE (getattr r ''pathname'') (\<lambda>path.
     bindE (getattr r ''levelname'') (\<lambda>lv.
     bindE (getattr r ''name'') (\<lambda>nm.
       Inr [(''@timestamp'', PStr ts), (''@version'', PStr ''1''), (''message'', PStr msg),
            (''host'', PStr (host cfg)), (''path'', path), (''tags'', tags cfg),
            (''type'', message_type cfg), (''level'', lv), (''logger_name'', nm)]))))))"

definition message_v1 :: "pylib \<Rightarrow> formatter_config \<Rightarrow> log_record \<Rightarrow> py_error + fields" where
  "message_v1 lib cfg r = bindE (base_v1 lib cfg r) (add_extra_and_debug lib r)"

section \<open>Serialization\<close>

text \<open>
  \<^verbatim>\<open>serialize\<close> is \<^verbatim>\<open>bytes(json.dumps(message), 'utf-8')\<close> (the branch for Python 3).
  \<^verbatim>\<open>json.dumps\<close> is modelled with its default options: every character outside the
  printable ASCII range is escaped, so the text is ASCII and its UTF-8 bytes are its
  characters.  A character of a string is a code point below 256 here.  The encoder
  raises TypeError for a value or a key it has no text for, ValueError for an integer
  with more digits than the interpreter turns into text, and RecursionError when
  lists, tuples and dicts are nested deeper than the calls the interpreter still
  allows: it enters one call for every list, tuple or dict.
\<close>

definition json_escape_char :: "char \<Rightarrow> string" where
  "json_escape_char c =
     (if c = CHR 0x5C then [CHR 0x5C, CHR 0x5C]
      else if c = CHR 0x22 then [CHR 0x5C, CHR 0x22]
      else if c = CHR 0x08 then [CHR 0x5C, CHR ''b'']
      else if c = CHR 0x0C then [CHR 0x5C, CHR ''f'']
      else if c = CHR 0x0A then [CHR 0x5C, CHR ''n'']
      else if c = CHR 0x0D then [CHR 0x5C, CHR ''r'']
      else if c = CHR 0x09 then [CHR 0x5C, CHR ''t'']
      else if (of_char c :: nat) < 32 \<or> 126 < (of_char c :: nat)
      then [CHR 0x5C, CHR ''u'', CHR ''0'', CHR ''0'',
            hex_char (of_char c div 16), hex_char (of_char c mod 16)]
      else [c])"

definition json_string :: "string \<Rightarrow> string" where
  "json_string s = [CHR 0x22] @ concat (map json_escape_char s) @ [CHR 0x22]"

definition show_int :: "int \<Rightarrow> string" where
  "show_int i = (if i < 0 then ''-'' @ show_nat (nat (- i)) else show_nat (nat i))"

text \<open>The text of an integer, \<^verbatim>\<open>int.__repr__\<close>, with the limit on its digits.\<close>

definition int_text :: "pylib \<Rightarrow> int \<Rightarrow> py_error + string" where
  "int_text lib i =
     (if 0 < int_max_str_digits lib \<and> int_max_str_digits lib < length (show_nat (nat \<bar>i\<bar>))
      then Inl ValueError
      else Inr (show_int i))"

definition json_float :: "pylib \<Rightarrow> pyfloat \<Rightarrow> string" where
  "json_float lib f =
     (case f of NaN \<Rightarrow> ''NaN'' | PosInf \<Rightarrow> ''Infinity'' | NegInf \<Rightarrow> ''-Infinity''
      | Finite q \<Rightarrow> float_repr lib f)"

fun join_with :: "string \<Rightarrow> string list \<Rightarrow> string" where
  "join_with sep [] = []"
| "join_with sep [x] = x"
| "join_with sep (x # y # ys) = x @ sep @ join_with sep (y # ys)"

text \<open>
  The key of a dict in JSON: a string as it is; a float, a bool, None and an integer
  are turned into text; any other key raises TypeError.
\<close>

fun json_key :: "pylib \<Rightarrow> pyval \<Rightarrow> py_error + string" where
  "json_key lib (PStr s) = Inr s"
| "json_key lib (PFloat f) = Inr (json_float lib f)"
| "json_key lib (PBool b) = Inr (if b then ''true'' else ''false'')"
| "json_key lib PNone = Inr ''null''"
| "json_key lib (PInt i) = int_text lib i"
| "json_key lib _ = Inl TypeError"

fun json_dumps :: "pylib \<Rightarrow> nat \<Rightarrow> pyval \<Rightarrow> py_error + string"
  and json_dumps_list :: "pylib \<Rightarrow> nat \<Rightarrow> pyval list \<Rightarrow> py_error + string list"
  and json_dumps_items ::
    "pylib \<Rightarrow> nat \<Rightarrow> (pyval \<times> pyval) list \<Rightarrow> py_error + string list"
where
  "json_dumps lib n (PStr s) = Inr (json_string s)"
| "json_dumps lib n PNone = Inr ''null''"
| "json_dumps lib n (PBool b) = Inr (if b then ''true'' else ''false'')"
| "json_dumps lib n (PInt i) = int_text lib i"
| "json_dumps lib n (PFloat f) = Inr (json_float lib f)"
| "json_dumps lib n (PList xs) =
     (if n = 0 then Inl RecursionError
      else bindE (json_dumps_list lib (n - 1) xs)
             (\<lambda>ts. Inr (''['' @ join_with '', '' ts @ '']'')))"
| "json_dumps lib n (PTuple xs) =
     (if n = 0 then Inl RecursionError
      else bindE (json_dumps_list lib (n - 1) xs)
             (\<lambda>ts. Inr (''['' @ join_with '', '' ts @ '']'')))"
| "json_dumps lib n (PDict kvs) =
     (if n = 0 then Inl RecursionError
      else bindE (json_dumps_items lib (n - 1) kvs)
             (\<lambda>ts. Inr (''{'' @ join_with '', '' ts @ ''}'')))"
| "json_dumps lib n (PDateTime y m d hh mm ss us) = Inl TypeError"
| "json_dumps lib n (PDate y m d) = Inl TypeError"
| "json_dumps lib n (PDecimal dec) = Inl TypeError"
| "json_dumps lib n (PUUID u) = Inl TypeError"
| "json_dumps lib n (POther tag) = Inl TypeError"
| "json_dumps_list lib n [] = Inr []"
| "json_dumps_list lib n (x # xs) =
     bindE (json_dumps lib n x) (\<lambda>t.
     bindE (json_dumps_list lib n xs) (\<lambda>ts. Inr (t # ts)))"
| "json_dumps_items lib n [] = Inr []"
| "json_dumps_items lib n ((k, v) # kvs) =
     bindE (json_key lib k) (\<lambda>kt.
     bindE (json_dumps lib n v) (\<lambda>vt.
     bindE (json_dumps_items lib n kvs) (\<lambda>ts. Inr ((json_string kt @ '': '' @ vt) # ts))))"

definition serialize :: "pylib \<Rightarrow> pyval \<Rightarrow> py_error + string" where
  "serialize lib message = json_dumps lib (recursion_budget lib) message"

definition format_v0 :: "pylib \<Rightarrow> formatter_config \<Rightarrow> log_record \<Rightarrow> py_error + string" where
  "format_v0 lib cfg r = bindE (message_v0 lib cfg r) (\<lambda>m. serialize lib (as_dict m))"

definition format_v1 :: "pylib \<Rightarrow> formatter_config \<Rightarrow> log_record \<Rightarrow> py_error + string" where
  "format_v1 lib cfg r = bindE (message_v1 lib cfg r) (\<lambda>m. serialize lib (as_dict m))"

section \<open>A sample environment\<close>

text \<open>
  The inverse of \<open>ord2ymd\<close>, as \<^verbatim>\<open>datetime\<close> computes it (\<^verbatim>\<open>_is_leap\<close>,
  \<^verbatim>\<open>_days_before_year\<close>, \<^verbatim>\<open>_days_before_month\<close>, \<^verbatim>\<open>_ymd2ord\<close>).
\<close>

definition is_leap :: "int \<Rightarrow> bool" where
  "is_leap year = (year mod 4 = 0 \<and> (year mod 100 \<noteq> 0 \<or> year mod 400 = 0))"

definition days_before_year :: "int \<Rightarrow> int" where
  "days_before_year year =
     (let y = year - 1 in y * 365 + y div 4 - y div 100 + y div 400)"

definition days_before_month :: "int \<Rightarrow> int \<Rightarrow> int" where
  "days_before_month year month =
     DAYS_BEFORE_MONTH ! nat month + (if 2 < month \<and> is_leap year then 1 else 0)"

definition ymd2ord :: "int \<Rightarrow> int \<Rightarrow> int \<Rightarrow> int" where
  "ymd2ord year month day = days_before_year year + days_before_month year month + day"

text \<open>
  One environment, used to run the formatter on concrete records: the local time
  zone is UTC, a decimal is converted exactly, \<^verbatim>\<open>repr\<close> and \<^verbatim>\<open>str\<close> know the few
  objects of the examples, a traceback has two lines, the message of a record is
  its \<^verbatim>\<open>msg\<close> attribute, and the two limits of the interpreter are 4300 digits and
  900 calls.  The product of two doubles is taken exactly, a year below 1000 is
  written without leading zeros, and the exception for seconds out of range is the
  one of Linux.
\<close>

definition sample_lib :: pylib where
  "sample_lib =
     \<lparr> repr_of = (\<lambda>v. case v of
                  PTuple [PInt i] \<Rightarrow> Inr (''('' @ show_int i @ '',)'')
                | POther tag \<Rightarrow> Inr (''<'' @ tag @ '' object>'')
                | _ \<Rightarrow> Inl (LibraryError ''repr'')),
       mktime = (\<lambda>(y, m, d, hh, mm, ss).
                  Inr (Finite (of_int ((ymd2ord y m d - EPOCH_ORDINAL) * 86400
                                       + hh * 3600 + mm * 60 + ss)))),
       to_double = Finite,
       str_of = (\<lambda>v. case v of PStr s \<Rightarrow> Inr s | _ \<Rightarrow> Inl (LibraryError ''str'')),
       float_repr = (\<lambda>f. case f of Finite q \<Rightarrow>
                        if q = 3 / 2 then ''1.5'' else ''0.0'' | _ \<Rightarrow> ''nan''),
       tb_format = (\<lambda>v. Inr [''Traceback (most recent call last):'', ''KeyError: 1'']),
       getMessage = (\<lambda>r. case map_of r ''msg'' of
                     Some (PStr s) \<Rightarrow> Inr s
                   | _ \<Rightarrow> Inl (LibraryError ''getMessage'')),
       int_max_str_digits = 4300,
       recursion_budget = 900,
       fmul = (\<lambda>a b. a * b),
       year_text = (\<lambda>y. show_nat (nat y)),
       range_error = (\<lambda>secs. if 2 ^ 63 \<le> \<bar>secs\<bar> then OverflowError
                             else if 67767976233532799 < secs \<or> secs < - 67768040609740800
                             then OSError else ValueError) \<rparr>"

text \<open>
  The attributes of a record as \<^verbatim>\<open>logging\<close> creates it for
  \<^verbatim>\<open>logger.info("hello")\<close>, without exception context.
\<close>

definition sample_record :: log_record where
  "sample_record =
     [(''name'', PStr ''app''), (''msg'', PStr ''hello''), (''args'', PTuple []),
      (''levelname'', PStr ''INFO''), (''levelno'', PInt 20),
      (''pathname'', PStr ''/srv/app.py''), (''filename'', PStr ''app.py''),
      (''module'', PStr ''app''), (''exc_info'', PNone), (''exc_text'', PNone),
      (''lineno'', PInt 7), (''funcName'', PStr ''main''),
      (''created'', PFloat (Finite (3 / 2))), (''msecs'', PFloat (Finite 500)),
      (''relativeCreated'', PFloat (Finite 12)), (''thread'', PInt 1),
      (''threadName'', PStr ''MainThread''), (''processName'', PStr ''MainProcess''),
      (''process'', PInt 4242)]"

definition sample_config :: formatter_config where
  "sample_config = \<lparr> message_type = PStr ''Logstash'', tags = PList [], host = ''myhost'' \<rparr>"

text \<open>The exception triple of the examples.\<close>

definition sample_exc :: pyval where
  "sample_exc = PTuple [POther ''KeyError'', POther ''KeyError(1)'', POther ''traceback'']"

definition exc_record :: log_record where
  "exc_record = AList.update ''exc_info'' sample_exc sample_record"

section \<open>Predicates on values used in the statements\<close>

text \<open>
  The values the normalizer has no branch for: they reach the final \<^verbatim>\<open>else\<close> and are
  turned into their \<^verbatim>\<open>repr\<close>.  A tuple is one of them, since the sequence branch
  tests for \<^verbatim>\<open>list\<close>.
\<close>

fun unsupported :: "pyval \<Rightarrow> bool" where
  "unsupported (PTuple xs) = True"
| "unsupported (POther tag) = True"
| "unsupported _ = False"

text \<open>
  \<open>convertible lib v\<close>: every conversion that the normalizer hands to the library
  for a part of \<open>v\<close> returns.  A \<^verbatim>\<open>Decimal\<close> must not be a signalling NaN or a NaN
  with a payload; a date must have a local time that the timestamp formatter accepts;
  an unsupported object must have a \<^verbatim>\<open>repr\<close>.
\<close>

fun convertible :: "pylib \<Rightarrow> pyval \<Rightarrow> bool"
  and convertible_items :: "pylib \<Rightarrow> (pyval \<times> pyval) list \<Rightarrow> bool"
  and convertible_list :: "pylib \<Rightarrow> pyval list \<Rightarrow> bool"
where
  "convertible lib (PDict kvs) = convertible_items lib kvs"
| "convertible lib (PList xs) = convertible_list lib xs"
| "convertible lib (PDateTime y m d hh mm ss us) =
     (case mktime lib (y, m, d, hh, mm, ss) of
        Inl e \<Rightarrow> False
      | Inr t \<Rightarrow> \<not> isl (format_timestamp lib (PFloat t)))"
| "convertible lib (PDate y m d) =
     (case mktime lib (y, m, d, 0, 0, 0) of
        Inl e \<Rightarrow> False
      | Inr t \<Rightarrow> \<not> isl (format_timestamp lib (PFloat t)))"
| "convertible lib (PDecimal (DecFinite neg c e)) = True"
| "convertible lib (PDecimal (DecInf neg)) = True"
| "convertible lib (PDecimal (DecNaN neg payload)) = (payload = 0)"
| "convertible lib (PDecimal (DecSNaN neg payload)) = False"
| "convertible lib (PUUID u) = True"
| "convertible lib (PStr s) = True"
| "convertible lib (PBool b) = True"
| "convertible lib (PFloat f) = True"
| "convertible lib (PInt i) = True"
| "convertible lib PNone = True"
| "convertible lib (PTuple xs) = (\<not> isl (repr_of lib (PTuple xs)))"
| "convertible lib (POther tag) = (\<not> isl (repr_of lib (POther tag)))"
| "convertible_items lib [] = True"
| "convertible_items lib ((k, v) # kvs) = (convertible lib v \<and> convertible_items lib kvs)"
| "convertible_list lib [] = True"
| "convertible_list lib (x # xs) = (convertible lib x \<and> convertible_list lib xs)"

text \<open>
  Two values have the same shape when they are dicts with the same keys in the same
  order and values of the same shape, or lists of the same length with elements of
  the same shape, or tuples of the same length with elements of the same shape, or
  both neither a dict nor a list nor a tuple.
\<close>

fun same_shape :: "pyval \<Rightarrow> pyval \<Rightarrow> bool"
  and same_shape_items :: "(pyval \<times> pyval) list \<Rightarrow> (pyval \<times> pyval) list \<Rightarrow> bool"
  and same_shape_list :: "pyval list \<Rightarrow> pyval list \<Rightarrow> bool"
where
  "same_shape (PDict kvs) w = (case w of PDict kvs' \<Rightarrow> same_shape_items kvs kvs' | _ \<Rightarrow> False)"
| "same_shape (PList xs) w = (case w of PList ys \<Rightarrow> same_shape_list xs ys | _ \<Rightarrow> False)"
| "same_shape (PTuple xs) w = (case w of PTuple ys \<Rightarrow> same_shape_list xs ys | _ \<Rightarrow> False)"
| "same_shape v w =
     (case w of PDict kvs' \<Rightarrow> False | PList ys \<Rightarrow> False | PTuple ys \<Rightarrow> False
      | _ \<Rightarrow> True)"
| "same_shape_items [] kvs' = (kvs' = [])"
| "same_shape_items ((k, v) # kvs) kvs' =
     (case kvs' of [] \<Rightarrow> False
      | (k', v') # rest \<Rightarrow> k = k' \<and> same_shape v v' \<and> same_shape_items kvs rest)"
| "same_shape_list [] ys = (ys = [])"
| "same_shape_list (x # xs) ys =
     (case ys of [] \<Rightarrow> False | y # rest \<Rightarrow> same_shape x y \<and> same_shape_list xs rest)"

text \<open>
  No tuple occurs in a value, at any depth below its dicts and lists.  The
  normalizer has no branch for a tuple, so it does not look into one.
\<close>

fun no_tuple :: "pyval \<Rightarrow> bool"
  and no_tuple_items :: "(pyval \<times> pyval) list \<Rightarrow> bool"
  and no_tuple_list :: "pyval list \<Rightarrow> bool"
where
  "no_tuple (PDict kvs) = no_tuple_items kvs"
| "no_tuple (PList xs) = no_tuple_list xs"
| "no_tuple (PTuple xs) = False"
| "no_tuple (PDateTime y m d hh mm ss us) = True"
| "no_tuple (PDate y m d) = True"
| "no_tuple (PDecimal dec) = True"
| "no_tuple (PUUID u) = True"
| "no_tuple (PStr s) = True"
| "no_tuple (PBool b) = True"
| "no_tuple (PFloat f) = True"
| "no_tuple (PInt i) = True"
| "no_tuple PNone = True"
| "no_tuple (POther tag) = True"
| "no_tuple_items [] = True"
| "no_tuple_items ((k, v) # kvs) = (no_tuple v \<and> no_tuple_items kvs)"
| "no_tuple_list [] = True"
| "no_tuple_list (x # xs) = (no_tuple x \<and> no_tuple_list xs)"

text \<open>
  Every leaf of a value (what is left after descending through dicts and lists) is a
  string, a boolean, a float, an integer or \<^verbatim>\<open>None\<close>.
\<close>

fun json_leaves :: "pyval \<Rightarrow> bool"
  and json_leaves_items :: "(pyval \<times> pyval) list \<Rightarrow> bool"
  and json_leaves_list :: "pyval list \<Rightarrow> bool"
where
  "json_leaves (PDict kvs) = json_leaves_items kvs"
| "json_leaves (PList xs) = json_leaves_list xs"
| "json_leaves (PStr s) = True"
| "json_leaves (PBool b) = True"
| "json_leaves (PFloat f) = True"
| "json_leaves (PInt i) = True"
| "json_leaves PNone = True"
| "json_leaves (PTuple xs) = False"
| "json_leaves (PDateTime y m d hh mm ss us) = False"
| "json_leaves (PDate y m d) = False"
| "json_leaves (PDecimal dec) = False"
| "json_leaves (PUUID u) = False"
| "json_leaves (POther tag) = False"
| "json_leaves_items [] = True"
| "json_leaves_items ((k, v) # kvs) = (json_leaves v \<and> json_leaves_items kvs)"
| "json_leaves_list [] = True"
| "json_leaves_list (x # xs) = (json_leaves x \<and> json_leaves_list xs)"

text \<open>
  The reserved attribute names as section 6 of the specification enumerates them,
  to be compared with \<open>skip_list\<close> of the source.
\<close>

definition spec_reserved_names :: "string list" where
  "spec_reserved_names =
     [''args'', ''asctime'', ''created'', ''exc_info'', ''exc_text'', ''filename'',
      ''funcName'', ''id'', ''levelname'', ''levelno'', ''lineno'', ''module'', ''msecs'',
      ''message'', ''msg'', ''name'', ''pathname'', ''process'', ''processName'',
      ''relativeCreated'', ''thread'', ''threadName'', ''extra'']"

text \<open>The sample record with two more attributes, as \<^verbatim>\<open>extra={'user_id': 42}\<close> gives.\<close>

definition extra_record :: log_record where
  "extra_record = sample_record @ [(''stack_info'', PNone), (''user_id'', PInt 42)]"

text \<open>
  The JSON-safe values as section 3 of the specification defines them: a string, a
  number, a boolean, null, a mapping from string keys to JSON-safe values, or an
  ordered sequence of JSON-safe values.  \<open>json_safe_values\<close> is the weaker reading
  that looks at the values only and lets a mapping have any keys.
\<close>

fun json_safe :: "pyval \<Rightarrow> bool"
  and json_safe_items :: "(pyval \<times> pyval) list \<Rightarrow> bool"
  and json_safe_list :: "pyval list \<Rightarrow> bool"
where
  "json_safe (PStr s) = True"
| "json_safe (PInt i) = True"
| "json_safe (PFloat f) = True"
| "json_safe (PBool b) = True"
| "json_safe PNone = True"
| "json_safe (PDict kvs) = json_safe_items kvs"
| "json_safe (PList xs) = json_safe_list xs"
| "json_safe (PTuple xs) = json_safe_list xs"
| "json_safe (PDateTime y m d hh mm ss us) = False"
| "json_safe (PDate y m d) = False"
| "json_safe (PDecimal dec) = False"
| "json_safe (PUUID u) = False"
| "json_safe (POther tag) = False"
| "json_safe_items [] = True"
| "json_safe_items ((k, v) # kvs) =
     ((case k of PStr s \<Rightarrow> True | _ \<Rightarrow> False) \<and> json_safe v \<and> json_safe_items kvs)"
| "json_safe_list [] = True"
| "json_safe_list (x # xs) = (json_safe x \<and> json_safe_list xs)"

fun json_safe_values :: "pyval \<Rightarrow> bool"
  and json_safe_values_items :: "(pyval \<times> pyval) list \<Rightarrow> bool"
  and json_safe_values_list :: "pyval list \<Rightarrow> bool"
where
  "json_safe_values (PStr s) = True"
| "json_safe_values (PInt i) = True"
| "json_safe_values (PFloat f) = True"
| "json_safe_values (PBool b) = True"
| "json_safe_values PNone = True"
| "json_safe_values (PDict kvs) = json_safe_values_items kvs"
| "json_safe_values (PList xs) = json_safe_values_list xs"
| "json_safe_values (PTuple xs) = json_safe_values_list xs"
| "json_safe_values (PDateTime y m d hh mm ss us) = False"
| "json_safe_values (PDate y m d) = False"
| "json_safe_values (PDecimal dec) = False"
| "json_safe_values (PUUID u) = False"
| "json_safe_values (POther tag) = False"
| "json_safe_values_items [] = True"
| "json_safe_values_items ((k, v) # kvs) = (json_safe_values v \<and> json_safe_values_items kvs)"
| "json_safe_values_list [] = True"
| "json_safe_values_list (x # xs) = (json_safe_values x \<and> json_safe_values_list xs)"

text \<open>
  What \<^verbatim>\<open>json.dumps\<close> encodes: strings, integers, floats, booleans, \<^verbatim>\<open>None\<close>, lists
  and tuples of such values, and dicts of such values whose keys are strings,
  integers, floats, booleans or \<^verbatim>\<open>None\<close>.
\<close>

fun key_encodable :: "pyval \<Rightarrow> bool" where
  "key_encodable (PStr s) = True"
| "key_encodable (PFloat f) = True"
| "key_encodable (PBool b) = True"
| "key_encodable PNone = True"
| "key_encodable (PInt i) = True"
| "key_encodable _ = False"

fun encodable :: "pyval \<Rightarrow> bool"
  and encodable_items :: "(pyval \<times> pyval) list \<Rightarrow> bool"
  and encodable_list :: "pyval list \<Rightarrow> bool"
where
  "encodable (PStr s) = True"
| "encodable (PInt i) = True"
| "encodable (PFloat f) = True"
| "encodable (PBool b) = True"
| "encodable PNone = True"
| "encodable (PDict kvs) = encodable_items kvs"
| "encodable (PList xs) = encodable_list xs"
| "encodable (PTuple xs) = encodable_list xs"
| "encodable (PDateTime y m d hh mm ss us) = False"
| "encodable (PDate y m d) = False"
| "encodable (PDecimal dec) = False"
| "encodable (PUUID u) = False"
| "encodable (POther tag) = False"
| "encodable_items [] = True"
| "encodable_items ((k, v) # kvs) = (key_encodable k \<and> encodable v \<and> encodable_items kvs)"
| "encodable_list [] = True"
| "encodable_list (x # xs) = (encodable x \<and> encodable_list xs)"

text \<open>
  No integer in a value, as a value or as a key of a dict, has more digits than the
  interpreter turns into text.
\<close>

definition int_short :: "pylib \<Rightarrow> int \<Rightarrow> bool" where
  "int_short lib i =
     (int_max_str_digits lib = 0 \<or> length (show_nat (nat \<bar>i\<bar>)) \<le> int_max_str_digits lib)"

fun ints_short :: "pylib \<Rightarrow> pyval \<Rightarrow> bool"
  and ints_short_items :: "pylib \<Rightarrow> (pyval \<times> pyval) list \<Rightarrow> bool"
  and ints_short_list :: "pylib \<Rightarrow> pyval list \<Rightarrow> bool"
where
  "ints_short lib (PInt i) = int_short lib i"
| "ints_short lib (PDict kvs) = ints_short_items lib kvs"
| "ints_short lib (PList xs) = ints_short_list lib xs"
| "ints_short lib (PTuple xs) = ints_short_list lib xs"
| "ints_short lib (PStr s) = True"
| "ints_short lib (PBool b) = True"
| "ints_short lib (PFloat f) = True"
| "ints_short lib PNone = True"
| "ints_short lib (PDateTime y m d hh mm ss us) = True"
| "ints_short lib (PDate y m d) = True"
| "ints_short lib (PDecimal dec) = True"
| "ints_short lib (PUUID u) = True"
| "ints_short lib (POther tag) = True"
| "ints_short_items lib [] = True"
| "ints_short_items lib ((k, v) # kvs) =
     ((case k of PInt i \<Rightarrow> int_short lib i | _ \<Rightarrow> True) \<and> ints_short lib v
      \<and> ints_short_items lib kvs)"
| "ints_short_list lib [] = True"
| "ints_short_list lib (x # xs) = (ints_short lib x \<and> ints_short_list lib xs)"

text \<open>How deep lists, tuples and dicts are nested in a value.\<close>

fun nesting :: "pyval \<Rightarrow> nat"
  and nesting_items :: "(pyval \<times> pyval) list \<Rightarrow> nat"
  and nesting_list :: "pyval list \<Rightarrow> nat"
where
  "nesting (PDict kvs) = Suc (nesting_items kvs)"
| "nesting (PList xs) = Suc (nesting_list xs)"
| "nesting (PTuple xs) = Suc (nesting_list xs)"
| "nesting (PStr s) = 0"
| "nesting (PBool b) = 0"
| "nesting (PFloat f) = 0"
| "nesting (PInt i) = 0"
| "nesting PNone = 0"
| "nesting (PDateTime y m d hh mm ss us) = 0"
| "nesting (PDate y m d) = 0"
| "nesting (PDecimal dec) = 0"
| "nesting (PUUID u) = 0"
| "nesting (POther tag) = 0"
| "nesting_items [] = 0"
| "nesting_items ((k, v) # kvs) = max (nesting v) (nesting_items kvs)"
| "nesting_list [] = 0"
| "nesting_list (x # xs) = max (nesting x) (nesting_list xs)"

text \<open>\<^verbatim>\<open>_days_in_month\<close> of \<^verbatim>\<open>datetime\<close>.\<close>

definition days_in_month :: "int \<Rightarrow> int \<Rightarrow> int" where
  "days_in_month year month =
     (if month = 2 \<and> is_leap year then 29 else DAYS_IN_MONTH ! nat month)"

section \<open>Properties of the debug-field builder\<close>

lemmas attr_defs = getattr_def getattr_default_def bindE_def

lemma add_if_falsy_present:
  "map_of r name = Some v \<Longrightarrow>
   add_if_falsy r name fs = Inr (if truthy v then fs else AList.update name v fs)"
  by (simp add: add_if_falsy_def attr_defs)

lemma add_if_falsy_missing:
  "map_of r name = None \<Longrightarrow> add_if_falsy r name fs = Inl (AttributeError name)"
  by (simp add: add_if_falsy_def attr_defs)

text \<open>
  C10.  A record with exception context and no \<^verbatim>\<open>processName\<close> attribute: the
  debug-field builder raises and returns no mapping.  The exception is an
  AttributeError whenever the traceback could be formatted, and it is the one for
  \<^verbatim>\<open>processName\<close> when the other attributes the builder reads are there.  The guard
  adds the key exactly when the attribute is present with a falsy value; when the
  attribute is missing, the read after the guard fails.
\<close>

theorem get_debug_fields_without_processName:
  assumes ei: "getattr r ''exc_info'' = Inr ei" and tr: "truthy ei"
    and np: "map_of r ''processName'' = None"
  shows "(\<exists>e. get_debug_fields lib r = Inl e \<and>
              (\<not> isl (tb_format lib ei) \<longrightarrow> (\<exists>n. e = AttributeError n))) \<and>
         (\<not> isl (tb_format lib ei) \<and>
            {''lineno'', ''process'', ''threadName'', ''funcName''} \<subseteq> fst ` set r \<longrightarrow>
            get_debug_fields lib r = Inl (AttributeError ''processName'')) \<and>
         (\<forall>name v fs. map_of r name = Some v \<longrightarrow>
            add_if_falsy r name fs = Inr (if truthy v then fs else AList.update name v fs)) \<and>
         (\<forall>name fs. map_of r name = None \<longrightarrow>
            add_if_falsy r name fs = Inl (AttributeError name))"
proof (intro conjI)
  show "\<exists>e. get_debug_fields lib r = Inl e \<and>
              (\<not> isl (tb_format lib ei) \<longrightarrow> (\<exists>n. e = AttributeError n))"
    using ei np
    by (auto simp: get_debug_fields_def attr_defs add_if_falsy_def format_exception_def
        split: sum.splits option.splits if_splits)
  show "\<not> isl (tb_format lib ei) \<and>
            {''lineno'', ''process'', ''threadName'', ''funcName''} \<subseteq> fst ` set r \<longrightarrow>
            get_debug_fields lib r = Inl (AttributeError ''processName'')"
  proof
    assume h: "\<not> isl (tb_format lib ei) \<and>
            {''lineno'', ''process'', ''threadName'', ''funcName''} \<subseteq> fst ` set r"
    then obtain a b c d where
      "map_of r ''lineno'' = Some a" "map_of r ''process'' = Some b"
      "map_of r ''threadName'' = Some c" "map_of r ''funcName'' = Some d"
      by (meson insert_subset weak_map_of_SomeI map_of_eq_None_iff not_None_eq)
    moreover obtain ls where "tb_format lib ei = Inr ls"
      using h by (cases "tb_format lib ei") auto
    ultimately show "get_debug_fields lib r = Inl (AttributeError ''processName'')"
      using ei tr np
      by (auto simp: get_debug_fields_def attr_defs add_if_falsy_def format_exception_def
        split: sum.splits option.splits)
  qed
qed (simp_all add: add_if_falsy_present add_if_falsy_missing)

theorem get_debug_fields_without_processName_witness:
  "get_debug_fields sample_lib (AList.delete ''processName'' exc_record)
     = Inl (AttributeError ''processName'')"
proof -
  let ?r = "AList.delete ''processName'' exc_record"
  have 1: "getattr ?r ''exc_info'' = Inr sample_exc"
    by (simp add: exc_record_def sample_record_def getattr_def)
  have 2: "truthy sample_exc" by (simp add: sample_exc_def)
  have 3: "map_of ?r ''processName'' = None"
    by (simp add: exc_record_def sample_record_def)
  have 4: "\<not> isl (tb_format sample_lib sample_exc)" by (simp add: sample_lib_def)
  have 5: "{''lineno'', ''process'', ''threadName'', ''funcName''} \<subseteq> fst ` set ?r"
    by (simp add: exc_record_def sample_record_def)
  show ?thesis
    using get_debug_fields_without_processName [OF 1 2 3, of sample_lib] 4 5 by blast
qed

lemma add_if_falsy_keys:
  "add_if_falsy r name fs = Inr fs' \<Longrightarrow> fst ` set fs \<subseteq> fst ` set fs' \<and> fst ` set fs' \<subseteq> insert name (fst ` set fs)"
proof -
  assume "add_if_falsy r name fs = Inr fs'"
  then have "fs' = fs \<or> (\<exists>v. fs' = AList.update name v fs)"
    by (auto simp: add_if_falsy_def attr_defs split: if_splits option.splits)
  then show ?thesis
    by (elim disjE exE) (simp_all add: AList.dom_update subset_insertI)
qed

lemma add_if_falsy_other:
  "add_if_falsy r name fs = Inr fs' \<Longrightarrow> k \<noteq> name \<Longrightarrow> map_of fs' k = map_of fs k"
  by (auto simp: add_if_falsy_def attr_defs update_conv' split: if_splits sum.splits option.splits)

text \<open>
  C5, as the code has it.  When the attributes \<^verbatim>\<open>lineno\<close>, \<^verbatim>\<open>process\<close>,
  \<^verbatim>\<open>threadName\<close>, \<^verbatim>\<open>funcName\<close> and \<^verbatim>\<open>processName\<close> are present and the traceback can
  be formatted, the debug-field builder returns a mapping.  Every mapping it returns
  has the keys \<^verbatim>\<open>stack_trace\<close>, \<^verbatim>\<open>lineno\<close>, \<^verbatim>\<open>process\<close> and \<^verbatim>\<open>thread_name\<close>:
  \<^verbatim>\<open>stack_trace\<close> is the joined traceback, or the empty string when \<^verbatim>\<open>exc_info\<close> is
  falsy, and the other three are the record's values unchanged.  Its only other keys
  can be \<^verbatim>\<open>funcName\<close> and \<^verbatim>\<open>processName\<close>.
\<close>

theorem get_debug_fields_result:
  assumes ei: "getattr r ''exc_info'' = Inr ei"
  shows "({''lineno'', ''process'', ''threadName'', ''funcName'', ''processName''} \<subseteq> fst ` set r
            \<and> (truthy ei \<longrightarrow> \<not> isl (tb_format lib ei))
          \<longrightarrow> (\<exists>fs. get_debug_fields lib r = Inr fs)) \<and>
         (\<forall>fs. get_debug_fields lib r = Inr fs \<longrightarrow>
            map_of fs ''stack_trace''
              = Some (PStr (if truthy ei then concat (projr (tb_format lib ei)) else [])) \<and>
            map_of fs ''lineno'' = map_of r ''lineno'' \<and>
            map_of fs ''process'' = map_of r ''process'' \<and>
            map_of fs ''thread_name'' = map_of r ''threadName'' \<and>
            {''stack_trace'', ''lineno'', ''process'', ''thread_name''} \<subseteq> fst ` set fs \<and>
            fst ` set fs \<subseteq> {''stack_trace'', ''lineno'', ''process'', ''thread_name'',
                               ''funcName'', ''processName''})"
proof (intro conjI allI impI)
  assume h: "{''lineno'', ''process'', ''threadName'', ''funcName'', ''processName''} \<subseteq> fst ` set r
            \<and> (truthy ei \<longrightarrow> \<not> isl (tb_format lib ei))"
  then obtain a b c d e where
      "map_of r ''lineno'' = Some a" "map_of r ''process'' = Some b"
      "map_of r ''threadName'' = Some c" "map_of r ''funcName'' = Some d"
      "map_of r ''processName'' = Some e"
    by (meson insert_subset weak_map_of_SomeI map_of_eq_None_iff not_None_eq)
  moreover have "\<exists>st. format_exception lib ei = Inr st"
    using h by (cases "tb_format lib ei") (auto simp: format_exception_def bindE_def)
  ultimately show "\<exists>fs. get_debug_fields lib r = Inr fs"
    using ei by (auto simp: get_debug_fields_def attr_defs add_if_falsy_def)
next
  fix fs assume r: "get_debug_fields lib r = Inr fs"
  from r ei obtain st lno pr tn fs1 where
    st: "format_exception lib ei = Inr st"
    and a: "map_of r ''lineno'' = Some lno" "map_of r ''process'' = Some pr"
      "map_of r ''threadName'' = Some tn"
    and f1: "add_if_falsy r ''funcName'' [(''stack_trace'', PStr st), (''lineno'', lno),
               (''process'', pr), (''thread_name'', tn)] = Inr fs1"
    and f2: "add_if_falsy r ''processName'' fs1 = Inr fs"
    by (auto simp: get_debug_fields_def attr_defs split: sum.splits option.splits)
  have st': "st = (if truthy ei then concat (projr (tb_format lib ei)) else [])"
    using st by (auto simp: format_exception_def bindE_def split: if_splits sum.splits)
  have m: "map_of fs k = map_of [(''stack_trace'', PStr st), (''lineno'', lno),
               (''process'', pr), (''thread_name'', tn)] k"
    if "k \<noteq> ''funcName''" "k \<noteq> ''processName''" for k
    using add_if_falsy_other [OF f1, of k] add_if_falsy_other [OF f2, of k] that by simp
  show "map_of fs ''stack_trace''
              = Some (PStr (if truthy ei then concat (projr (tb_format lib ei)) else []))"
    using m [of "''stack_trace''"] st' by simp
  show "map_of fs ''lineno'' = map_of r ''lineno''" using m [of "''lineno''"] a by simp
  show "map_of fs ''process'' = map_of r ''process''" using m [of "''process''"] a by simp
  show "map_of fs ''thread_name'' = map_of r ''threadName''"
    using m [of "''thread_name''"] a by simp
  show "{''stack_trace'', ''lineno'', ''process'', ''thread_name''} \<subseteq> fst ` set fs"
    using add_if_falsy_keys [OF f1] add_if_falsy_keys [OF f2] by auto
  show "fst ` set fs \<subseteq> {''stack_trace'', ''lineno'', ''process'', ''thread_name'',
                               ''funcName'', ''processName''}"
    using add_if_falsy_keys [OF f1] add_if_falsy_keys [OF f2] by auto
qed

lemma exc_record_debug:
  "get_debug_fields sample_lib exc_record =
     Inr [(''stack_trace'', PStr ''Traceback (most recent call last):KeyError: 1''),
          (''lineno'', PInt 7), (''process'', PInt 4242),
          (''thread_name'', PStr ''MainThread'')]"
  by (simp add: get_debug_fields_def attr_defs add_if_falsy_def format_exception_def
      exc_record_def sample_record_def sample_exc_def sample_lib_def)

theorem get_debug_fields_result_witness:
  "map_of (projr (get_debug_fields sample_lib exc_record)) ''lineno'' = Some (PInt 7) \<and>
   fst ` set (projr (get_debug_fields sample_lib exc_record))
     \<subseteq> {''stack_trace'', ''lineno'', ''process'', ''thread_name'', ''funcName'', ''processName''}"
proof -
  have 1: "getattr exc_record ''exc_info'' = Inr sample_exc"
    by (simp add: exc_record_def sample_record_def getattr_def)
  have 2: "{''lineno'', ''process'', ''threadName'', ''funcName'', ''processName''}
             \<subseteq> fst ` set exc_record"
    by (simp add: exc_record_def sample_record_def)
  have 3: "\<not> isl (tb_format sample_lib sample_exc)" by (simp add: sample_lib_def)
  have 4: "map_of exc_record ''lineno'' = Some (PInt 7)"
    by (simp add: exc_record_def sample_record_def)
  from get_debug_fields_result [OF 1, of sample_lib] 2 3
  obtain fs where fs: "get_debug_fields sample_lib exc_record = Inr fs" by blast
  with get_debug_fields_result [OF 1, of sample_lib] 4 show ?thesis by simp
qed

text \<open>
  C5 as stated fails: for a record with exception context whose \<^verbatim>\<open>funcName\<close> is
  \<^verbatim>\<open>None\<close>, the mapping has a fifth key, \<^verbatim>\<open>funcName\<close>.
\<close>

theorem get_debug_fields_exact_keys_counterexample:
  "get_debug_fields sample_lib (AList.update ''funcName'' PNone exc_record) =
     Inr [(''stack_trace'', PStr ''Traceback (most recent call last):KeyError: 1''),
          (''lineno'', PInt 7), (''process'', PInt 4242),
          (''thread_name'', PStr ''MainThread''), (''funcName'', PNone)] \<and>
   ''funcName'' \<notin> {''stack_trace'', ''lineno'', ''process'', ''thread_name''}"
  by (simp add: get_debug_fields_def attr_defs add_if_falsy_def format_exception_def
      exc_record_def sample_record_def sample_exc_def sample_lib_def) 

section \<open>Properties of the value normalizer\<close>

lemma bindE_Inr_iff: "bindE m f = Inr y \<longleftrightarrow> (\<exists>x. m = Inr x \<and> f x = Inr y)"
  by (cases m) (auto simp: bindE_def)

lemma value_repr_convertible_aux:
  "(convertible lib v \<longleftrightarrow> (\<exists>w. value_repr lib v = Inr w))"
  "(convertible_items lib kvs \<longleftrightarrow> (\<exists>ws. value_repr_items lib kvs = Inr ws))"
  "(convertible_list lib xs \<longleftrightarrow> (\<exists>ys. value_repr_list lib xs = Inr ys))"
proof (induction lib v and lib kvs and lib xs
    rule: value_repr_value_repr_items_value_repr_list.induct)
  case (3 lib y m d hh mm ss us)
  show ?case
    by (cases "mktime lib (y, m, d, hh, mm, ss)")
       (auto simp: bindE_Inr_iff bindE_def split: sum.splits)
next
  case (4 lib y m d)
  show ?case
    by (cases "mktime lib (y, m, d, 0, 0, 0)")
       (auto simp: bindE_Inr_iff bindE_def split: sum.splits)
next
  case (5 lib dec)
  show ?case by (cases dec) (auto simp: bindE_Inr_iff)
next
  case (12 lib xs)
  show ?case by (cases "repr_of lib (PTuple xs)") (auto simp: bindE_def)
next
  case (13 lib tag)
  show ?case by (cases "repr_of lib (POther tag)") (auto simp: bindE_def)
qed (auto simp: bindE_Inr_iff)

lemma value_repr_idem_aux:
  "(\<forall>w. value_repr lib v = Inr w \<longrightarrow>
      value_repr lib w = Inr w \<and> json_leaves w \<and> (no_tuple v \<longrightarrow> same_shape v w))"
  "(\<forall>ws. value_repr_items lib kvs = Inr ws \<longrightarrow>
      value_repr_items lib ws = Inr ws \<and> json_leaves_items ws \<and>
      (no_tuple_items kvs \<longrightarrow> same_shape_items kvs ws))"
  "(\<forall>ys. value_repr_list lib xs = Inr ys \<longrightarrow>
      value_repr_list lib ys = Inr ys \<and> json_leaves_list ys \<and>
      (no_tuple_list xs \<longrightarrow> same_shape_list xs ys))"
proof (induction lib v and lib kvs and lib xs
    rule: value_repr_value_repr_items_value_repr_list.induct)
qed (auto simp: bindE_Inr_iff)

lemma value_repr_list_nth:
  "value_repr_list lib xs = Inr ys \<Longrightarrow>
     length ys = length xs \<and> (\<forall>i<length xs. value_repr lib (xs ! i) = Inr (ys ! i))"
proof (induction xs arbitrary: ys)
  case Nil
  then show ?case by simp
next
  case (Cons x xs)
  then obtain y ys' where y: "value_repr lib x = Inr y" "value_repr_list lib xs = Inr ys'"
    "ys = y # ys'"
    by (auto simp: bindE_Inr_iff)
  with Cons.IH [of ys'] show ?case by (auto simp: nth_Cons split: nat.splits)
qed

lemma value_repr_list_all:
  "(\<forall>x\<in>set xs. \<exists>y. value_repr lib x = Inr y) \<Longrightarrow> \<exists>ys. value_repr_list lib xs = Inr ys"
  by (induction xs) (auto simp: bindE_Inr_iff)


text \<open>
  C2, as the code has it.  The normalizer returns a result exactly for the values
  whose library conversions all return (\<open>convertible\<close>): it has no handler of its
  own, so a \<^verbatim>\<open>Decimal\<close> that is a signalling NaN or a NaN with a payload, a date that
  \<^verbatim>\<open>time.mktime\<close> or the timestamp formatter rejects, and an object whose \<^verbatim>\<open>repr\<close>
  raises make it raise.  A value without a branch of its own is turned into its
  \<^verbatim>\<open>repr\<close> string.
\<close>

theorem value_repr_returns_iff:
  "(convertible lib v \<longleftrightarrow> (\<exists>w. value_repr lib v = Inr w)) \<and>
   (unsupported v \<longrightarrow> value_repr lib v = bindE (repr_of lib v) (\<lambda>s. Inr (PStr s)))"
proof
  show "convertible lib v \<longleftrightarrow> (\<exists>w. value_repr lib v = Inr w)"
    by (rule value_repr_convertible_aux)
  show "unsupported v \<longrightarrow> value_repr lib v = bindE (repr_of lib v) (\<lambda>s. Inr (PStr s))"
    by (cases v) simp_all
qed

theorem value_repr_returns_iff_witness:
  "(\<exists>w. value_repr sample_lib
          (PDict [(PStr ''a'', PDecimal (DecFinite False 150 (- 2))),
                  (PStr ''b'', PList [PInt 42, PNone])]) = Inr w) \<and>
   value_repr sample_lib (POther ''Foo'') = Inr (PStr ''<Foo object>'')"
proof -
  have 1: "convertible sample_lib
          (PDict [(PStr ''a'', PDecimal (DecFinite False 150 (- 2))),
                  (PStr ''b'', PList [PInt 42, PNone])])"
    by simp
  have 2: "unsupported (POther ''Foo'')" by simp
  have 3: "bindE (repr_of sample_lib (POther ''Foo'')) (\<lambda>s. Inr (PStr s))
             = Inr (PStr ''<Foo object>'')"
    by (simp add: sample_lib_def bindE_def)
  show ?thesis
    using value_repr_returns_iff [of sample_lib "PDict [(PStr ''a'', PDecimal (DecFinite False 150 (- 2))),
                  (PStr ''b'', PList [PInt 42, PNone])]"]
      value_repr_returns_iff [of sample_lib "POther ''Foo''"] 1 2 3
    by simp
qed

text \<open>
  C2 as stated fails: for \<^verbatim>\<open>Decimal('sNaN')\<close> the call \<^verbatim>\<open>float(str(value))\<close> raises
  ValueError, and so does the normalizer.
\<close>

theorem value_repr_raises_counterexample:
  "value_repr sample_lib (PDecimal (DecSNaN False 0)) = Inl ValueError"
  by (simp add: bindE_def)

text \<open>
  C6, as the code has it.  For a \<^verbatim>\<open>list\<close> whose elements all normalize, the result
  is a list; every result for a list is a list of the same length whose \<open>i\<close>-th
  element is the normalized \<open>i\<close>-th element, whatever \<^verbatim>\<open>repr\<close> would give for the
  list.  A tuple is not taken by the sequence branch: it is turned into its
  \<^verbatim>\<open>repr\<close> string.
\<close>

theorem value_repr_list_elementwise:
  "((\<forall>x\<in>set xs. \<exists>y. value_repr lib x = Inr y) \<longrightarrow>
      (\<exists>ys. value_repr lib (PList xs) = Inr (PList ys))) \<and>
   (\<forall>w. value_repr lib (PList xs) = Inr w \<longrightarrow>
      (\<exists>ys. w = PList ys \<and> length ys = length xs \<and>
            (\<forall>i<length xs. value_repr lib (xs ! i) = Inr (ys ! i)))) \<and>
   value_repr lib (PTuple xs) = bindE (repr_of lib (PTuple xs)) (\<lambda>s. Inr (PStr s))"
proof (intro conjI allI impI)
  assume "\<forall>x\<in>set xs. \<exists>y. value_repr lib x = Inr y"
  then obtain ys where "value_repr_list lib xs = Inr ys"
    using value_repr_list_all by blast
  then show "\<exists>ys. value_repr lib (PList xs) = Inr (PList ys)"
    by (simp add: bindE_def)
next
  fix w assume "value_repr lib (PList xs) = Inr w"
  then obtain ys where ys: "value_repr_list lib xs = Inr ys" "w = PList ys"
    by (auto simp: bindE_Inr_iff)
  with value_repr_list_nth [OF ys(1)]
  show "\<exists>ys. w = PList ys \<and> length ys = length xs \<and>
            (\<forall>i<length xs. value_repr lib (xs ! i) = Inr (ys ! i))"
    by blast
qed simp

lemma sample_list_elements:
  "\<forall>x\<in>set [PDecimal (DecFinite False 150 (- 2)), PInt 42, PList [PNone]].
     \<exists>y. value_repr sample_lib x = Inr y"
  by (simp add: bindE_def)

theorem value_repr_list_elementwise_witness:
  "\<exists>ys. value_repr sample_lib (PList [PDecimal (DecFinite False 150 (- 2)), PInt 42, PList [PNone]])
           = Inr (PList ys) \<and> length ys = 3"
proof -
  from value_repr_list_elementwise
         [of "[PDecimal (DecFinite False 150 (- 2)), PInt 42, PList [PNone]]" sample_lib]
       sample_list_elements
  obtain ys where
    ys: "value_repr sample_lib (PList [PDecimal (DecFinite False 150 (- 2)), PInt 42, PList [PNone]])
           = Inr (PList ys)"
    by blast
  with value_repr_list_elementwise
         [of "[PDecimal (DecFinite False 150 (- 2)), PInt 42, PList [PNone]]" sample_lib]
  have "length ys = 3" by auto
  with ys show ?thesis by blast
qed

text \<open>
  C6 as stated fails for a tuple: the result for \<^verbatim>\<open>(1,)\<close> is the string
  \<^verbatim>\<open>'(1,)'\<close>, not a sequence of one element.
\<close>

theorem value_repr_tuple_counterexample:
  "value_repr sample_lib (PTuple [PInt 1]) = Inr (PStr ''(1,)'')"
  by (simp add: sample_lib_def bindE_def show_int_def digit_char_def)

text \<open>
  C7, as the code has it.  For every value whose library conversions all return,
  the normalizer returns a result, and normalizing that result returns it again;
  all leaves of the result are strings, booleans, floats, integers or \<^verbatim>\<open>None\<close>.
  When no tuple occurs in the value, the result has the shape of the value: the same
  keys in the same order in every dict, the same length and order in every list.
\<close>

theorem value_repr_idempotent:
  assumes "convertible lib v"
  shows "\<exists>w. value_repr lib v = Inr w \<and> value_repr lib w = Inr w \<and> json_leaves w \<and>
              (no_tuple v \<longrightarrow> same_shape v w)"
proof -
  from assms value_repr_convertible_aux(1) [of lib v]
  obtain w where w: "value_repr lib v = Inr w" by blast
  with value_repr_idem_aux(1) [of lib v] show ?thesis by blast
qed

lemma sample_nested_value:
  "value_repr sample_lib
     (PDict [(PStr ''a'', PList [PDecimal (DecFinite False 150 (- 2)), PInt 42]),
             (PInt 7, PDate 2024 11 4)])
   = Inr (PDict [(PStr ''a'', PList [PFloat (Finite (3 / 2)), PInt 42]),
                 (PInt 7, PStr ''2024-11-04T00:00:00.000Z'')])"
  by code_simp

lemma sample_nested_convertible:
  "convertible sample_lib
     (PDict [(PStr ''a'', PList [PDecimal (DecFinite False 150 (- 2)), PInt 42]),
             (PInt 7, PDate 2024 11 4)])"
  using value_repr_convertible_aux(1) [of sample_lib
     "PDict [(PStr ''a'', PList [PDecimal (DecFinite False 150 (- 2)), PInt 42]),
             (PInt 7, PDate 2024 11 4)]"]
  unfolding sample_nested_value by simp

theorem value_repr_idempotent_witness:
  "value_repr sample_lib
     (PDict [(PStr ''a'', PList [PFloat (Finite (3 / 2)), PInt 42]),
             (PInt 7, PStr ''2024-11-04T00:00:00.000Z'')])
   = Inr (PDict [(PStr ''a'', PList [PFloat (Finite (3 / 2)), PInt 42]),
                 (PInt 7, PStr ''2024-11-04T00:00:00.000Z'')]) \<and>
   same_shape
     (PDict [(PStr ''a'', PList [PDecimal (DecFinite False 150 (- 2)), PInt 42]),
             (PInt 7, PDate 2024 11 4)])
     (PDict [(PStr ''a'', PList [PFloat (Finite (3 / 2)), PInt 42]),
             (PInt 7, PStr ''2024-11-04T00:00:00.000Z'')])"
proof -
  have nt: "no_tuple
     (PDict [(PStr ''a'', PList [PDecimal (DecFinite False 150 (- 2)), PInt 42]),
             (PInt 7, PDate 2024 11 4)])"
    by simp
  from value_repr_idempotent [OF sample_nested_convertible] nt
  show ?thesis unfolding sample_nested_value by simp
qed

text \<open>
  C7 as stated fails: a tuple inside a container is an ordered sequence of supported
  leaves, and the normalizer replaces it by a string, so the result is not a
  container of the same shape.
\<close>

theorem value_repr_shape_counterexample:
  "value_repr sample_lib (PDict [(PStr ''t'', PTuple [PInt 1])])
     = Inr (PDict [(PStr ''t'', PStr ''(1,)'')]) \<and>
   \<not> same_shape (PDict [(PStr ''t'', PTuple [PInt 1])]) (PDict [(PStr ''t'', PStr ''(1,)'')])"
  by (simp add: sample_lib_def bindE_def show_int_def digit_char_def)

section \<open>Properties of the extra fields and of the document builders\<close>

lemma isl_bindE: "isl (bindE m f) \<longleftrightarrow> isl m \<or> (\<exists>x. m = Inr x \<and> isl (f x))"
  by (cases m) (auto simp: bindE_def)

text \<open>Merging one mapping into another: the keys add up, a later write wins.\<close>

lemma dict_update_Nil [simp]: "dict_update d [] = d"
  by (simp add: dict_update_def)

lemma dict_update_Cons [simp]:
  "dict_update d ((k, v) # other) = dict_update (AList.update k v d) other"
  by (simp add: dict_update_def)

lemma keys_dict_update: "fst ` set (dict_update d other) = fst ` set d \<union> fst ` set other"
proof (induction other arbitrary: d)
  case Nil
  then show ?case by simp
next
  case (Cons kv other)
  obtain k v where "kv = (k, v)" by (cases kv)
  then show ?case by (simp add: Cons.IH AList.dom_update)
qed

lemma distinct_dict_update:
  "distinct (map fst d) \<Longrightarrow> distinct (map fst (dict_update d other))"
  by (induction other arbitrary: d) (auto simp: AList.distinct_update)

lemma map_of_dict_update:
  "distinct (map fst other) \<Longrightarrow>
   map_of (dict_update d other) k =
     (case map_of other k of None \<Rightarrow> map_of d k | Some v \<Rightarrow> Some v)"
proof (induction other arbitrary: d)
  case Nil
  then show ?case by simp
next
  case (Cons kv other)
  obtain k' v' where kv: "kv = (k', v')" by (cases kv)
  from Cons.prems kv have d: "distinct (map fst other)" and n: "k' \<notin> fst ` set other"
    by auto
  from n have "map_of other k' = None" by (simp add: map_of_eq_None_iff)
  with Cons.IH [OF d, of "AList.update k' v' d"] kv show ?case
    by (auto simp: update_conv' split: option.splits)
qed

text \<open>The loop over the attributes of a record.\<close>

lemma extra_loop_keys:
  "extra_loop lib r fs = Inr fs' \<Longrightarrow>
   fst ` set fs' = fst ` set fs \<union> {k \<in> fst ` set r. k \<notin> set skip_list}"
proof (induction lib r fs arbitrary: fs' rule: extra_loop.induct)
  case (1 lib fs)
  then show ?case by simp
next
  case (2 lib key v kvs fs)
  show ?case
  proof (cases "key \<in> set skip_list")
    case True
    with 2 show ?thesis by auto
  next
    case False
    with 2(3) obtain v' where v': "value_repr lib v = Inr v'"
      and l: "extra_loop lib kvs (AList.update key v' fs) = Inr fs'"
      by (auto simp: bindE_Inr_iff)
    from 2(1) [OF False l] False show ?thesis
      by (auto simp: AList.dom_update)
  qed
qed

lemma extra_loop_distinct:
  "extra_loop lib r fs = Inr fs' \<Longrightarrow> distinct (map fst fs) \<Longrightarrow> distinct (map fst fs')"
proof (induction lib r fs arbitrary: fs' rule: extra_loop.induct)
  case (1 lib fs)
  then show ?case by simp
next
  case (2 lib key v kvs fs)
  then show ?case
    by (cases "key \<in> set skip_list") (auto simp: bindE_Inr_iff AList.distinct_update)
qed

lemma extra_loop_untouched:
  "extra_loop lib r fs = Inr fs' \<Longrightarrow> k \<notin> fst ` set r \<or> k \<in> set skip_list \<Longrightarrow>
   map_of fs' k = map_of fs k"
proof (induction lib r fs arbitrary: fs' rule: extra_loop.induct)
  case (1 lib fs)
  then show ?case by simp
next
  case (2 lib key v kvs fs)
  show ?case
  proof (cases "key \<in> set skip_list")
    case True
    with 2 show ?thesis by auto
  next
    case False
    with 2(3) obtain v' where v': "value_repr lib v = Inr v'"
      and l: "extra_loop lib kvs (AList.update key v' fs) = Inr fs'"
      by (auto simp: bindE_Inr_iff)
    from 2(4) False have "k \<noteq> key" by auto
    moreover from 2(4) have "k \<notin> fst ` set kvs \<or> k \<in> set skip_list" by auto
    ultimately show ?thesis using 2(1) [OF False l] by (simp add: update_conv')
  qed
qed

lemma extra_loop_value:
  "extra_loop lib r fs = Inr fs' \<Longrightarrow> distinct (map fst r) \<Longrightarrow>
   map_of r k = Some v \<Longrightarrow> k \<notin> set skip_list \<Longrightarrow>
   \<exists>w. value_repr lib v = Inr w \<and> map_of fs' k = Some w"
proof (induction lib r fs arbitrary: fs' rule: extra_loop.induct)
  case (1 lib fs)
  then show ?case by simp
next
  case (2 lib key u kvs fs)
  show ?case
  proof (cases "key \<in> set skip_list")
    case True
    with 2(5,6) have "map_of kvs k = Some v" by (auto split: if_splits)
    with True 2 show ?thesis by auto
  next
    case False
    with 2(3) obtain u' where u': "value_repr lib u = Inr u'"
      and l: "extra_loop lib kvs (AList.update key u' fs) = Inr fs'"
      by (auto simp: bindE_Inr_iff)
    show ?thesis
    proof (cases "k = key")
      case True
      with 2(4) have "k \<notin> fst ` set kvs" by auto
      with extra_loop_untouched [OF l, of k]
      have "map_of fs' k = Some u'" using True by (simp add: update_conv')
      moreover from True 2(5) have "v = u" by simp
      ultimately show ?thesis using u' by simp
    next
      case False
      with 2(5) have "map_of kvs k = Some v" by simp
      with 2(1) [OF \<open>key \<notin> set skip_list\<close> l] 2(4,6) show ?thesis by simp
    qed
  qed
qed

lemma extra_loop_returns:
  "(\<exists>fs'. extra_loop lib r fs = Inr fs') \<longleftrightarrow>
   (\<forall>(k, v)\<in>set r. k \<notin> set skip_list \<longrightarrow> convertible lib v)"
proof (induction lib r fs rule: extra_loop.induct)
  case (1 lib fs)
  then show ?case by simp
next
  case (2 lib key v kvs fs)
  show ?case
  proof (cases "key \<in> set skip_list")
    case True
    with 2(2) show ?thesis by simp
  next
    case False
    show ?thesis
    proof (cases "value_repr lib v")
      case (Inl e)
      with False value_repr_convertible_aux(1) [of lib v] show ?thesis
        by (simp add: bindE_def)
    next
      case (Inr v')
      with False value_repr_convertible_aux(1) [of lib v] 2(1) [OF False, of v'] show ?thesis
        by (simp add: bindE_def)
    qed
  qed
qed

lemma add_extra_and_debug_Inr:
  "add_extra_and_debug lib r d = Inr m \<longleftrightarrow>
   (\<exists>ex ei. get_extra_fields lib r = Inr ex \<and> getattr r ''exc_info'' = Inr ei \<and>
      (if truthy ei
       then \<exists>dbg. get_debug_fields lib r = Inr dbg \<and> m = dict_update (dict_update d ex) dbg
       else m = dict_update d ex))"
  by (auto simp: add_extra_and_debug_def bindE_Inr_iff)

lemma get_debug_fields_keys:
  "get_debug_fields lib r = Inr dbg \<Longrightarrow>
   fst ` set dbg \<subseteq> {''stack_trace'', ''lineno'', ''process'', ''thread_name'',
                       ''funcName'', ''processName''}"
proof -
  assume a: "get_debug_fields lib r = Inr dbg"
  then obtain st lno pr tn fs1 where
    f1: "add_if_falsy r ''funcName'' [(''stack_trace'', PStr st), (''lineno'', lno),
               (''process'', pr), (''thread_name'', tn)] = Inr fs1"
    and f2: "add_if_falsy r ''processName'' fs1 = Inr dbg"
    by (auto simp: get_debug_fields_def bindE_Inr_iff)
  show ?thesis using add_if_falsy_keys [OF f1] add_if_falsy_keys [OF f2] by auto
qed

lemma add_if_falsy_distinct:
  "add_if_falsy r name fs = Inr fs' \<Longrightarrow> distinct (map fst fs) \<Longrightarrow> distinct (map fst fs')"
  by (auto simp: add_if_falsy_def bindE_Inr_iff AList.distinct_update split: if_splits)

lemma get_debug_fields_distinct:
  "get_debug_fields lib r = Inr dbg \<Longrightarrow> distinct (map fst dbg)"
proof -
  assume a: "get_debug_fields lib r = Inr dbg"
  then obtain st lno pr tn fs1 where
    f1: "add_if_falsy r ''funcName'' [(''stack_trace'', PStr st), (''lineno'', lno),
               (''process'', pr), (''thread_name'', tn)] = Inr fs1"
    and f2: "add_if_falsy r ''processName'' fs1 = Inr dbg"
    by (auto simp: get_debug_fields_def bindE_Inr_iff)
  have "distinct (map fst [(''stack_trace'', PStr st), (''lineno'', lno),
               (''process'', pr), (''thread_name'', tn)])" by simp
  from add_if_falsy_distinct [OF f2 add_if_falsy_distinct [OF f1 this]] show ?thesis .
qed

text \<open>What the region of either schema holds, for a region seeded with \<open>d\<close>.\<close>

lemma region_extra_value:
  assumes m: "add_extra_and_debug lib r d = Inr m" and dist: "distinct (map fst r)"
    and k: "map_of r k = Some v" "k \<notin> set skip_list"
      "k \<noteq> ''stack_trace''" "k \<noteq> ''thread_name''"
  shows "\<exists>w. value_repr lib v = Inr w \<and> map_of m k = Some w"
proof -
  from m obtain ex ei where ex: "get_extra_fields lib r = Inr ex"
    and ei: "getattr r ''exc_info'' = Inr ei"
    and c: "if truthy ei
       then \<exists>dbg. get_debug_fields lib r = Inr dbg \<and> m = dict_update (dict_update d ex) dbg
       else m = dict_update d ex"
    by (auto simp: add_extra_and_debug_Inr)
  from ex have l: "extra_loop lib r [] = Inr ex" by (simp add: get_extra_fields_def)
  from extra_loop_value [OF l dist k(1,2)] obtain w where
    w: "value_repr lib v = Inr w" "map_of ex k = Some w" by blast
  have dex: "distinct (map fst ex)" using extra_loop_distinct [OF l] by simp
  have 1: "map_of (dict_update d ex) k = Some w"
    using map_of_dict_update [OF dex, of d k] w by simp
  have "map_of m k = Some w"
  proof (cases "truthy ei")
    case False
    with c 1 show ?thesis by simp
  next
    case True
    with c obtain dbg where dbg: "get_debug_fields lib r = Inr dbg"
      "m = dict_update (dict_update d ex) dbg" by auto
    have "k \<notin> fst ` set dbg"
      using get_debug_fields_keys [OF dbg(1)] k(2-4) by (auto simp: skip_list_def)
    then have "map_of dbg k = None" by (simp add: map_of_eq_None_iff)
    with map_of_dict_update [OF get_debug_fields_distinct [OF dbg(1)], of "dict_update d ex" k]
      dbg(2) 1 show ?thesis by simp
  qed
  with w show ?thesis by blast
qed

lemma region_keys:
  assumes m: "add_extra_and_debug lib r d = Inr m"
  shows "fst ` set d \<union> {k \<in> fst ` set r. k \<notin> set skip_list} \<subseteq> fst ` set m"
    and "fst ` set m \<subseteq> fst ` set d \<union> {k \<in> fst ` set r. k \<notin> set skip_list}
            \<union> {''stack_trace'', ''lineno'', ''process'', ''thread_name'',
                ''funcName'', ''processName''}"
    and "getattr r ''exc_info'' = Inr ei \<Longrightarrow> \<not> truthy ei \<Longrightarrow>
           fst ` set m = fst ` set d \<union> {k \<in> fst ` set r. k \<notin> set skip_list}"
proof -
  from m obtain ex ei' where ex: "get_extra_fields lib r = Inr ex"
    and ei: "getattr r ''exc_info'' = Inr ei'"
    and c: "if truthy ei'
       then \<exists>dbg. get_debug_fields lib r = Inr dbg \<and> m = dict_update (dict_update d ex) dbg
       else m = dict_update d ex"
    by (auto simp: add_extra_and_debug_Inr)
  from ex have l: "extra_loop lib r [] = Inr ex" by (simp add: get_extra_fields_def)
  have kex: "fst ` set ex = {k \<in> fst ` set r. k \<notin> set skip_list}"
    using extra_loop_keys [OF l] by simp
  show "fst ` set d \<union> {k \<in> fst ` set r. k \<notin> set skip_list} \<subseteq> fst ` set m"
  proof (cases "truthy ei'")
    case True
    with c obtain dbg where dbg: "get_debug_fields lib r = Inr dbg"
      "m = dict_update (dict_update d ex) dbg" by auto
    show ?thesis using kex unfolding dbg(2) keys_dict_update by blast
  next
    case False
    with c kex show ?thesis by (simp add: keys_dict_update)
  qed
  show "fst ` set m \<subseteq> fst ` set d \<union> {k \<in> fst ` set r. k \<notin> set skip_list}
            \<union> {''stack_trace'', ''lineno'', ''process'', ''thread_name'',
                ''funcName'', ''processName''}"
  proof (cases "truthy ei'")
    case True
    with c obtain dbg where dbg: "get_debug_fields lib r = Inr dbg"
      "m = dict_update (dict_update d ex) dbg" by auto
    show ?thesis using get_debug_fields_keys [OF dbg(1)] kex
      unfolding dbg(2) keys_dict_update by blast
  next
    case False
    with c kex show ?thesis by (simp add: keys_dict_update) blast
  qed
  show "fst ` set m = fst ` set d \<union> {k \<in> fst ` set r. k \<notin> set skip_list}"
    if "getattr r ''exc_info'' = Inr ei" "\<not> truthy ei"
    using that ei c kex by (simp add: keys_dict_update)
qed

lemma skip_list_reserved: "set skip_list = set spec_reserved_names"
  by (simp add: skip_list_def spec_reserved_names_def insert_commute)

lemma reserved_in_v0:
  "k \<in> set skip_list \<Longrightarrow>
   k \<in> {''levelname'', ''logger''} \<union> {''stack_trace'', ''lineno'', ''process'',
          ''thread_name'', ''funcName'', ''processName''} \<Longrightarrow>
   k \<in> {''levelname'', ''lineno'', ''process'', ''funcName'', ''processName''}"
  by (auto simp: skip_list_def)

lemma reserved_in_v1:
  "k \<in> set skip_list \<Longrightarrow>
   k \<in> {''@timestamp'', ''@version'', ''message'', ''host'', ''path'', ''tags'',
         ''type'', ''level'', ''logger_name''} \<union> {''stack_trace'', ''lineno'', ''process'',
          ''thread_name'', ''funcName'', ''processName''} \<Longrightarrow>
   k \<in> {''message'', ''lineno'', ''process'', ''funcName'', ''processName''}"
  by (auto simp: skip_list_def)

lemma region_reserved:
  assumes "add_extra_and_debug lib r d = Inr m" and "k \<in> fst ` set m" "k \<in> set skip_list"
  shows "k \<in> fst ` set d \<union> {''stack_trace'', ''lineno'', ''process'',
          ''thread_name'', ''funcName'', ''processName''}"
  using region_keys(2) [OF assms(1)] assms(2,3) by blast

lemma fields_v0_Inr:
  "fields_v0 lib r = Inr fs \<longleftrightarrow>
   (\<exists>lv nm. getattr r ''levelname'' = Inr lv \<and> getattr r ''name'' = Inr nm \<and>
      add_extra_and_debug lib r [(''levelname'', lv), (''logger'', nm)] = Inr fs)"
  by (auto simp: fields_v0_def bindE_Inr_iff)

lemma base_v1_keys:
  "base_v1 lib cfg r = Inr base \<Longrightarrow>
   map fst base = [''@timestamp'', ''@version'', ''message'', ''host'', ''path'', ''tags'',
                   ''type'', ''level'', ''logger_name''] \<and>
   map_of base ''@version'' = Some (PStr ''1'')"
  by (auto simp: base_v1_def bindE_Inr_iff)

lemma message_v1_Inr:
  "message_v1 lib cfg r = Inr m \<longleftrightarrow>
   (\<exists>base. base_v1 lib cfg r = Inr base \<and> add_extra_and_debug lib r base = Inr m)"
  by (auto simp: message_v1_def bindE_Inr_iff)

lemma message_v0_fields:
  "message_v0 lib cfg r = Inr m \<Longrightarrow>
   \<exists>fs. fields_v0 lib r = Inr fs \<and> map_of m ''@fields'' = Some (as_dict fs)"
  by (auto simp: message_v0_def bindE_Inr_iff)

text \<open>
  C1, as the code has it.  \<open>skip_list\<close> holds exactly the reserved names of
  section 6.  \<^verbatim>\<open>get_extra_fields\<close> returns exactly when every attribute outside
  \<open>skip_list\<close> normalizes; the keys of its result are exactly the attribute names
  outside \<open>skip_list\<close>, each with its normalized value, so no reserved name is a key
  of it.  Both builders merge this mapping into their region (the \<^verbatim>\<open>@fields\<close>
  mapping of version 0, the top level of version 1), after the schema's own keys and
  before the debug fields: the region holds the normalized value of every attribute
  outside \<open>skip_list\<close>, except under \<^verbatim>\<open>stack_trace\<close> and \<^verbatim>\<open>thread_name\<close>, which the
  debug fields may overwrite.  The only reserved names that can be keys of the region
  are the ones the builders write themselves: \<^verbatim>\<open>levelname\<close> in version 0,
  \<^verbatim>\<open>message\<close> in version 1, and the debug fields.
\<close>

theorem extra_fields_region:
  assumes dist: "distinct (map fst r)"
  shows
   "set skip_list = set spec_reserved_names \<and>
    ((\<exists>ex. get_extra_fields lib r = Inr ex) \<longleftrightarrow>
       (\<forall>(k, v)\<in>set r. k \<notin> set skip_list \<longrightarrow> convertible lib v)) \<and>
    (\<forall>ex. get_extra_fields lib r = Inr ex \<longrightarrow>
       fst ` set ex = {k \<in> fst ` set r. k \<notin> set skip_list} \<and>
       (\<forall>k v. map_of r k = Some v \<and> k \<notin> set skip_list \<longrightarrow>
          (\<exists>w. value_repr lib v = Inr w \<and> map_of ex k = Some w))) \<and>
    (\<forall>fs. fields_v0 lib r = Inr fs \<longrightarrow>
       (\<forall>k v. map_of r k = Some v \<and> k \<notin> set skip_list \<and>
              k \<noteq> ''stack_trace'' \<and> k \<noteq> ''thread_name'' \<longrightarrow>
          (\<exists>w. value_repr lib v = Inr w \<and> map_of fs k = Some w)) \<and>
       fst ` set fs \<inter> set skip_list
         \<subseteq> {''levelname'', ''lineno'', ''process'', ''funcName'', ''processName''}) \<and>
    (\<forall>m. message_v0 lib cfg r = Inr m \<longrightarrow>
       (\<exists>fs. fields_v0 lib r = Inr fs \<and> map_of m ''@fields'' = Some (as_dict fs))) \<and>
    (\<forall>m. message_v1 lib cfg r = Inr m \<longrightarrow>
       (\<forall>k v. map_of r k = Some v \<and> k \<notin> set skip_list \<and>
              k \<noteq> ''stack_trace'' \<and> k \<noteq> ''thread_name'' \<longrightarrow>
          (\<exists>w. value_repr lib v = Inr w \<and> map_of m k = Some w)) \<and>
       fst ` set m \<inter> set skip_list
         \<subseteq> {''message'', ''lineno'', ''process'', ''funcName'', ''processName''})"
proof (intro conjI allI impI)
  show "set skip_list = set spec_reserved_names" by (rule skip_list_reserved)
  show "(\<exists>ex. get_extra_fields lib r = Inr ex) \<longleftrightarrow>
       (\<forall>(k, v)\<in>set r. k \<notin> set skip_list \<longrightarrow> convertible lib v)"
    unfolding get_extra_fields_def by (rule extra_loop_returns)
next
  fix ex assume "get_extra_fields lib r = Inr ex"
  then have l: "extra_loop lib r [] = Inr ex" by (simp add: get_extra_fields_def)
  show "fst ` set ex = {k \<in> fst ` set r. k \<notin> set skip_list}"
    using extra_loop_keys [OF l] by simp
  fix k v assume "map_of r k = Some v \<and> k \<notin> set skip_list"
  then show "\<exists>w. value_repr lib v = Inr w \<and> map_of ex k = Some w"
    using extra_loop_value [OF l dist] by blast
next
  fix fs assume "fields_v0 lib r = Inr fs"
  then obtain lv nm where
    a: "add_extra_and_debug lib r [(''levelname'', lv), (''logger'', nm)] = Inr fs"
    by (auto simp: fields_v0_Inr)
  show "fst ` set fs \<inter> set skip_list
         \<subseteq> {''levelname'', ''lineno'', ''process'', ''funcName'', ''processName''}"
  proof
    fix k assume "k \<in> fst ` set fs \<inter> set skip_list"
    then have k: "k \<in> fst ` set fs" "k \<in> set skip_list" by simp_all
    from region_reserved [OF a k]
    have "k \<in> {''levelname'', ''logger''} \<union> {''stack_trace'', ''lineno'', ''process'',
          ''thread_name'', ''funcName'', ''processName''}"
      by simp
    from reserved_in_v0 [OF k(2) this]
    show "k \<in> {''levelname'', ''lineno'', ''process'', ''funcName'', ''processName''}" .
  qed
  fix k v assume "map_of r k = Some v \<and> k \<notin> set skip_list \<and>
              k \<noteq> ''stack_trace'' \<and> k \<noteq> ''thread_name''"
  then show "\<exists>w. value_repr lib v = Inr w \<and> map_of fs k = Some w"
    using region_extra_value [OF a dist] by blast
next
  fix m assume "message_v0 lib cfg r = Inr m"
  then show "\<exists>fs. fields_v0 lib r = Inr fs \<and> map_of m ''@fields'' = Some (as_dict fs)"
    by (rule message_v0_fields)
next
  fix m assume "message_v1 lib cfg r = Inr m"
  then obtain base where b: "base_v1 lib cfg r = Inr base"
    and a: "add_extra_and_debug lib r base = Inr m"
    by (auto simp: message_v1_Inr)
  have "fst ` set base = set (map fst base)" by simp
  also have "\<dots> = {''@timestamp'', ''@version'', ''message'',
      ''host'', ''path'', ''tags'', ''type'', ''level'', ''logger_name''}"
    using base_v1_keys [OF b] by simp
  finally have kb: "fst ` set base = {''@timestamp'', ''@version'', ''message'',
      ''host'', ''path'', ''tags'', ''type'', ''level'', ''logger_name''}" .
  show "fst ` set m \<inter> set skip_list
         \<subseteq> {''message'', ''lineno'', ''process'', ''funcName'', ''processName''}"
  proof
    fix k assume "k \<in> fst ` set m \<inter> set skip_list"
    then have k: "k \<in> fst ` set m" "k \<in> set skip_list" by simp_all
    from region_reserved [OF a k]
    have "k \<in> {''@timestamp'', ''@version'', ''message'', ''host'', ''path'', ''tags'',
         ''type'', ''level'', ''logger_name''} \<union> {''stack_trace'', ''lineno'', ''process'',
          ''thread_name'', ''funcName'', ''processName''}"
      unfolding kb .
    from reserved_in_v1 [OF k(2) this]
    show "k \<in> {''message'', ''lineno'', ''process'', ''funcName'', ''processName''}" .
  qed
  fix k v assume "map_of r k = Some v \<and> k \<notin> set skip_list \<and>
              k \<noteq> ''stack_trace'' \<and> k \<noteq> ''thread_name''"
  then show "\<exists>w. value_repr lib v = Inr w \<and> map_of m k = Some w"
    using region_extra_value [OF a dist] by blast
qed

lemma extra_record_distinct: "distinct (map fst extra_record)"
  by (simp add: extra_record_def sample_record_def)

lemma extra_record_convertible:
  "\<forall>(k, v)\<in>set extra_record. k \<notin> set skip_list \<longrightarrow> convertible sample_lib v"
  by (simp add: extra_record_def sample_record_def skip_list_def)

theorem extra_fields_region_witness:
  "\<exists>ex. get_extra_fields sample_lib extra_record = Inr ex \<and>
        map_of ex ''user_id'' = Some (PInt 42)"
proof -
  note t = extra_fields_region [OF extra_record_distinct, of sample_lib sample_config]
  note t2 = t [THEN conjunct2, THEN conjunct1]
  note t3 = t [THEN conjunct2, THEN conjunct2, THEN conjunct1, rule_format]
  from t2 [THEN iffD2, OF extra_record_convertible]
  obtain ex where ex: "get_extra_fields sample_lib extra_record = Inr ex" by (elim exE)
  have a: "map_of extra_record ''user_id'' = Some (PInt 42) \<and> ''user_id'' \<notin> set skip_list"
    by (simp add: extra_record_def sample_record_def skip_list_def)
  note c = t3 [OF ex, THEN conjunct2, rule_format]
  from c [OF a] obtain w where "value_repr sample_lib (PInt 42) = Inr w"
    "map_of ex ''user_id'' = Some w" by (elim exE conjE)
  then have "map_of ex ''user_id'' = Some (PInt 42)" by simp
  with ex show ?thesis by (intro exI conjI)
qed

text \<open>
  C1 as stated fails: version 0 seeds \<^verbatim>\<open>@fields\<close> with the record's \<^verbatim>\<open>levelname\<close>,
  a reserved name, so the region of every version 0 document has that key.
\<close>

theorem extra_region_reserved_counterexample:
  "fields_v0 sample_lib sample_record
     = Inr [(''levelname'', PStr ''INFO''), (''logger'', PStr ''app'')] \<and>
   ''levelname'' \<in> set skip_list"
  by code_simp




section \<open>Properties of the serializer\<close>

lemma bindE_Inl_iff:
  "bindE m f = Inl e \<longleftrightarrow> m = Inl e \<or> (\<exists>x. m = Inr x \<and> f x = Inl e)"
  by (cases m) (auto simp: bindE_def)

lemma int_text_result:
  "(isl (int_text lib i) \<longleftrightarrow> \<not> int_short lib i) \<and>
   (\<forall>e. int_text lib i = Inl e \<longrightarrow> e = ValueError)"
  by (auto simp: int_text_def int_short_def)

lemma json_key_result:
  "(isl (json_key lib k) \<longleftrightarrow>
      \<not> key_encodable k \<or> \<not> (case k of PInt i \<Rightarrow> int_short lib i | _ \<Rightarrow> True)) \<and>
   (json_key lib k = Inl TypeError \<longrightarrow> \<not> key_encodable k) \<and>
   (json_key lib k = Inl ValueError \<longrightarrow> \<not> (case k of PInt i \<Rightarrow> int_short lib i | _ \<Rightarrow> True)) \<and>
   (\<forall>e. json_key lib k = Inl e \<longrightarrow> e = TypeError \<or> e = ValueError)"
  by (cases k) (auto simp: int_text_def int_short_def)

text \<open>The outcome of the encoder, by the three causes of a failure.\<close>

lemma json_dumps_isl:
  "isl (json_dumps lib n v) \<longleftrightarrow> \<not> encodable v \<or> \<not> ints_short lib v \<or> n < nesting v"
  "isl (json_dumps_list lib n xs) \<longleftrightarrow>
     \<not> encodable_list xs \<or> \<not> ints_short_list lib xs \<or> n < nesting_list xs"
  "isl (json_dumps_items lib n kvs) \<longleftrightarrow>
     \<not> encodable_items kvs \<or> \<not> ints_short_items lib kvs \<or> n < nesting_items kvs"
proof (induction lib n v and lib n xs and lib n kvs
    rule: json_dumps_json_dumps_list_json_dumps_items.induct)
  case (4 lib n i)
  then show ?case using int_text_result [of lib i] by simp
next
  case (6 lib n xs)
  then show ?case by (cases n) (auto simp: isl_bindE)
next
  case (7 lib n xs)
  then show ?case by (cases n) (auto simp: isl_bindE)
next
  case (8 lib n kvs)
  then show ?case by (cases n) (auto simp: isl_bindE)
next
  case (15 lib n x xs)
  then show ?case
    by (cases "json_dumps lib n x"; cases "json_dumps_list lib n xs") (auto simp: bindE_def)
next
  case (17 lib n k v kvs)
  then show ?case
    using json_key_result [of lib k]
    by (cases "json_key lib k"; cases "json_dumps lib n v"; cases "json_dumps_items lib n kvs")
       (auto simp: bindE_def)
qed simp_all


lemma json_dumps_error:
  "(json_dumps lib n v = Inl TypeError \<longrightarrow> \<not> encodable v) \<and>
   (json_dumps lib n v = Inl ValueError \<longrightarrow> \<not> ints_short lib v) \<and>
   (json_dumps lib n v = Inl RecursionError \<longrightarrow> n < nesting v) \<and>
   (\<forall>e. json_dumps lib n v = Inl e \<longrightarrow> e = TypeError \<or> e = ValueError \<or> e = RecursionError)"
  "(json_dumps_list lib n xs = Inl TypeError \<longrightarrow> \<not> encodable_list xs) \<and>
   (json_dumps_list lib n xs = Inl ValueError \<longrightarrow> \<not> ints_short_list lib xs) \<and>
   (json_dumps_list lib n xs = Inl RecursionError \<longrightarrow> n < nesting_list xs) \<and>
   (\<forall>e. json_dumps_list lib n xs = Inl e \<longrightarrow>
      e = TypeError \<or> e = ValueError \<or> e = RecursionError)"
  "(json_dumps_items lib n kvs = Inl TypeError \<longrightarrow> \<not> encodable_items kvs) \<and>
   (json_dumps_items lib n kvs = Inl ValueError \<longrightarrow> \<not> ints_short_items lib kvs) \<and>
   (json_dumps_items lib n kvs = Inl RecursionError \<longrightarrow> n < nesting_items kvs) \<and>
   (\<forall>e. json_dumps_items lib n kvs = Inl e \<longrightarrow>
      e = TypeError \<or> e = ValueError \<or> e = RecursionError)"
proof (induction lib n v and lib n xs and lib n kvs
    rule: json_dumps_json_dumps_list_json_dumps_items.induct)
  case (4 lib n i)
  then show ?case by (auto simp: int_text_def int_short_def)
next
  case (6 lib n xs)
  then show ?case by (cases n; cases "json_dumps_list lib (n - 1) xs") (auto simp: bindE_def)
next
  case (7 lib n xs)
  then show ?case by (cases n; cases "json_dumps_list lib (n - 1) xs") (auto simp: bindE_def)
next
  case (8 lib n kvs)
  then show ?case by (cases n; cases "json_dumps_items lib (n - 1) kvs") (auto simp: bindE_def)
next
  case (15 lib n x xs)
  then show ?case
    by (cases "json_dumps lib n x"; cases "json_dumps_list lib n xs") (auto simp: bindE_def)
next
  case (17 lib n k v kvs)
  then show ?case
    using json_key_result [of lib k]
    by (cases "json_key lib k"; cases "json_dumps lib n v"; cases "json_dumps_items lib n kvs")
       (auto simp: bindE_def)
qed simp_all

lemma json_safe_encodable:
  "json_safe v \<longrightarrow> encodable v"
  "json_safe_items kvs \<longrightarrow> encodable_items kvs"
  "json_safe_list xs \<longrightarrow> encodable_list xs"
proof (induction v and kvs and xs rule: json_safe_json_safe_items_json_safe_list.induct)
  case (15 k v kvs)
  then show ?case by (cases k) auto
qed auto


text \<open>
  C9, as the code has it.  The serializer fails exactly when the document holds
  something \<^verbatim>\<open>json.dumps\<close> raises for: a value that is no string, integer, float,
  boolean, \<^verbatim>\<open>None\<close>, list, tuple or dict, or a dict key that is no string, integer,
  float, boolean or \<^verbatim>\<open>None\<close> (TypeError); an integer, as a value or as a key, with
  more digits than the interpreter turns into text (ValueError); lists, tuples and
  dicts nested deeper than the calls the interpreter still allows (RecursionError).
  It raises nothing else, and each exception has its cause in the document.  Every
  JSON-safe document without such an integer and within that depth is encoded.
  Both \<^verbatim>\<open>format\<close> methods return what the serializer returns for their message,
  its exception included.
\<close>

theorem serialize_fails_iff:
  "(isl (serialize lib d) \<longleftrightarrow>
      \<not> encodable d \<or> \<not> ints_short lib d \<or> recursion_budget lib < nesting d) \<and>
   (serialize lib d = Inl TypeError \<longrightarrow> \<not> encodable d) \<and>
   (serialize lib d = Inl ValueError \<longrightarrow> \<not> ints_short lib d) \<and>
   (serialize lib d = Inl RecursionError \<longrightarrow> recursion_budget lib < nesting d) \<and>
   (\<forall>e. serialize lib d = Inl e \<longrightarrow> e = TypeError \<or> e = ValueError \<or> e = RecursionError) \<and>
   (json_safe d \<and> ints_short lib d \<and> nesting d \<le> recursion_budget lib \<longrightarrow>
      (\<exists>out. serialize lib d = Inr out)) \<and>
   (\<forall>cfg r m. message_v0 lib cfg r = Inr m \<longrightarrow>
      format_v0 lib cfg r = serialize lib (as_dict m)) \<and>
   (\<forall>cfg r m. message_v1 lib cfg r = Inr m \<longrightarrow>
      format_v1 lib cfg r = serialize lib (as_dict m))"
proof -
  note e = json_dumps_error(1) [of lib "recursion_budget lib" d, folded serialize_def]
  have 1: "isl (serialize lib d) \<longleftrightarrow>
      \<not> encodable d \<or> \<not> ints_short lib d \<or> recursion_budget lib < nesting d"
    unfolding serialize_def by (rule json_dumps_isl)
  have 2: "serialize lib d = Inl TypeError \<longrightarrow> \<not> encodable d"
    and 3: "serialize lib d = Inl ValueError \<longrightarrow> \<not> ints_short lib d"
    and 4: "serialize lib d = Inl RecursionError \<longrightarrow> recursion_budget lib < nesting d"
    and 5: "\<forall>e. serialize lib d = Inl e \<longrightarrow> e = TypeError \<or> e = ValueError \<or> e = RecursionError"
    using e by blast+
  have 6: "json_safe d \<and> ints_short lib d \<and> nesting d \<le> recursion_budget lib \<longrightarrow>
      (\<exists>out. serialize lib d = Inr out)"
  proof
    assume h: "json_safe d \<and> ints_short lib d \<and> nesting d \<le> recursion_budget lib"
    with json_safe_encodable(1) [of d] have "encodable d" by simp
    with h 1 have "\<not> isl (serialize lib d)" by simp
    then show "\<exists>out. serialize lib d = Inr out" by (cases "serialize lib d") auto
  qed
  have 7: "\<forall>cfg r m. message_v0 lib cfg r = Inr m \<longrightarrow>
      format_v0 lib cfg r = serialize lib (as_dict m)"
    by (simp add: format_v0_def bindE_def)
  have 8: "\<forall>cfg r m. message_v1 lib cfg r = Inr m \<longrightarrow>
      format_v1 lib cfg r = serialize lib (as_dict m)"
    by (simp add: format_v1_def bindE_def)
  show ?thesis by (intro conjI) (rule 1 2 3 4 5 6 7 8)+
qed

lemma sample_document_ok:
  "json_safe (PDict [(PStr ''message'', PStr ''hello''), (PStr ''tags'', PList []),
                     (PStr ''user_id'', PInt 42)]) \<and>
   ints_short sample_lib (PDict [(PStr ''message'', PStr ''hello''), (PStr ''tags'', PList []),
                     (PStr ''user_id'', PInt 42)]) \<and>
   nesting (PDict [(PStr ''message'', PStr ''hello''), (PStr ''tags'', PList []),
                     (PStr ''user_id'', PInt 42)]) \<le> recursion_budget sample_lib"
  by code_simp

theorem serialize_fails_iff_witness:
  "\<exists>out. serialize sample_lib
      (PDict [(PStr ''message'', PStr ''hello''), (PStr ''tags'', PList []),
              (PStr ''user_id'', PInt 42)]) = Inr out"
  by (rule serialize_fails_iff [of sample_lib "PDict [(PStr ''message'', PStr ''hello''),
      (PStr ''tags'', PList []), (PStr ''user_id'', PInt 42)]",
      THEN conjunct2, THEN conjunct2, THEN conjunct2, THEN conjunct2, THEN conjunct2,
      THEN conjunct1, THEN mp, OF sample_document_ok])

text \<open>
  C9 as stated fails in one direction under either reading of "JSON-safe".  A
  mapping with an integer key is not a mapping from string keys, yet it is encoded
  (the key becomes a string).  A mapping with a tuple key has only JSON-safe values,
  yet the serializer raises.  Both documents come out of the normalizer unchanged.
\<close>

theorem serialize_json_safe_counterexample:
  \<open>(\<not> json_safe (PDict [(PStr ''m'', PDict [(PInt 1, PStr ''a'')])]) \<and>
    serialize sample_lib (PDict [(PStr ''m'', PDict [(PInt 1, PStr ''a'')])])
      = Inr ''{"m": {"1": "a"}}'') \<and>
   (json_safe_values (PDict [(PStr ''m'', PDict [(PTuple [PInt 1, PInt 2], PStr ''a'')])]) \<and>
    serialize sample_lib (PDict [(PStr ''m'', PDict [(PTuple [PInt 1, PInt 2], PStr ''a'')])])
      = Inl TypeError)\<close>
  by code_simp

end
